theory Spec2Isabelle
  imports Complex_Main "HOL-Library.AList" "HOL-Library.Multiset"
begin

section \<open>The chart configuration normalizer of ajayjs\<close>

text \<open>
  The repository holds two revisions of the same class \<open>_Chart\<close>:
  \<^item> \<^verbatim>\<open>src/AJAYJS/charts/charts.js\<close>, whose functions are embedded under their own
    names with the suffix \<open>_ajayjs\<close> where the two files differ;
  \<^item> \<^verbatim>\<open>src/charts/charts.js\<close>, whose functions carry the suffix \<open>_charts\<close> where the two
    files differ.
  A function that is the same text in both files is embedded once, without suffix
  (\<open>deepMerge\<close>, \<open>generatePalette\<close>, \<open>removeDataset\<close>, \<open>updateData\<close> and the counting loop
  of \<open>_buildHistogramDataset\<close>).
\<close>

subsection \<open>JavaScript numbers\<close>

text \<open>
  A JavaScript number is an IEEE double: \<open>NaN\<close>, the two infinities, or a finite value,
  which is a real number. Comparisons on doubles are exact, so they are the comparisons
  of the reals they denote. Arithmetic rounds: the exact result of an operation on
  finite operands is passed through \<open>roundNum\<close>, the rounding of the engine (which may
  also overflow to an infinity); it is a parameter (see \<open>builtins\<close> below). The two
  zeros \<open>+0\<close> and \<open>-0\<close> are identified: no code modelled here can tell them apart
  (they compare equal and print alike under \<open>toFixed\<close>), except a division by a
  negative zero, which is taken as a division by \<open>+0\<close>.
\<close>

datatype jsnum = NaN | NegInf | Fin real | PosInf

text \<open>\<open>a < b\<close>: false as soon as one side is \<open>NaN\<close>.\<close>

fun js_lt :: "jsnum \<Rightarrow> jsnum \<Rightarrow> bool" where
  "js_lt NaN b = False"
| "js_lt a NaN = False"
| "js_lt PosInf b = False"
| "js_lt a NegInf = False"
| "js_lt NegInf b = True"
| "js_lt (Fin x) (Fin y) = (x < y)"
| "js_lt (Fin x) PosInf = True"

text \<open>\<open>a === b\<close> on numbers: \<open>NaN\<close> equals nothing, not even itself.\<close>

definition js_eq :: "jsnum \<Rightarrow> jsnum \<Rightarrow> bool" where
  "js_eq a b = (a \<noteq> NaN \<and> a = b)"

text \<open>\<open>a <= b\<close>, \<open>a >= b\<close> and \<open>a > b\<close>.\<close>

definition js_le :: "jsnum \<Rightarrow> jsnum \<Rightarrow> bool" where
  "js_le a b = (js_lt a b \<or> js_eq a b)"

definition js_ge :: "jsnum \<Rightarrow> jsnum \<Rightarrow> bool" where
  "js_ge a b = js_le b a"

definition js_gt :: "jsnum \<Rightarrow> jsnum \<Rightarrow> bool" where
  "js_gt a b = js_lt b a"

text \<open>
  \<open>Math.min(...xs)\<close> and \<open>Math.max(...xs)\<close>: \<open>NaN\<close> as soon as one argument is \<open>NaN\<close>;
  without arguments \<open>Infinity\<close> and \<open>-Infinity\<close>.
\<close>

definition js_min2 :: "jsnum \<Rightarrow> jsnum \<Rightarrow> jsnum" where
  "js_min2 a b = (if a = NaN \<or> b = NaN then NaN else if js_lt b a then b else a)"

definition js_max2 :: "jsnum \<Rightarrow> jsnum \<Rightarrow> jsnum" where
  "js_max2 a b = (if a = NaN \<or> b = NaN then NaN else if js_lt a b then b else a)"

definition math_min :: "jsnum list \<Rightarrow> jsnum" where
  "math_min xs = foldl js_min2 PosInf xs"

definition math_max :: "jsnum list \<Rightarrow> jsnum" where
  "math_max xs = foldl js_max2 NegInf xs"

subsection \<open>JavaScript values\<close>

text \<open>
  The values the normalizer reads and builds. An object is its list of own properties
  in insertion order, keys distinct (the engine lists keys that look like array
  indices first; the theorems below read properties by key and do not depend on the
  order). A function value is opaque: a name and the values it has captured.
  The limits of the engine's resources (the greatest array length, the stack that
  \<open>Math.min(...xs)\<close> spreads its arguments on, memory) are not modelled.
\<close>

datatype jsval =
    JUndefined
  | JNull
  | JBool bool
  | JNum jsnum
  | JStr string
  | JFun string "jsval list"
  | JArr "jsval list"
  | JObj "(string \<times> jsval) list"

type_synonym obj = "(string \<times> jsval) list"

text \<open>
  What the engine supplies and the repository does not define: the rounding of
  arithmetic, \<open>Number.prototype.toFixed(2)\<close> and the conversion \<open>ToNumber\<close> that the
  operator \<open>-\<close> applies to its operands.
\<close>

record builtins =
  roundNum :: "real \<Rightarrow> jsnum"
  toFixed2 :: "jsnum \<Rightarrow> string"
  ToNumber :: "jsval \<Rightarrow> jsnum"

text \<open>
  How a function can fail: the two exceptions the embedded code can raise, a loop
  that never ends, and a sort whose result the language leaves to the engine (see
  \<open>sortEdges\<close> below).
\<close>

datatype js_error = TypeError | RangeError | Diverges | SortUnspecified

text \<open>Property read \<open>o.k\<close> on an object: \<open>undefined\<close> when the key is absent.\<close>

definition get :: "obj \<Rightarrow> string \<Rightarrow> jsval" where
  "get ob k = (case map_of ob k of Some v \<Rightarrow> v | None \<Rightarrow> JUndefined)"

text \<open>\<open>a ?? b\<close>.\<close>

definition coalesce :: "jsval \<Rightarrow> jsval \<Rightarrow> jsval" where
  "coalesce a b = (if a = JUndefined \<or> a = JNull then b else a)"

fun isArray :: "jsval \<Rightarrow> bool" where
  "isArray (JArr xs) = True"
| "isArray v = False"

fun isNumber :: "jsval \<Rightarrow> bool" where
  "isNumber (JNum n) = True"
| "isNumber v = False"

fun isBoolean :: "jsval \<Rightarrow> bool" where
  "isBoolean (JBool b) = True"
| "isBoolean v = False"

text \<open>\<open>typeof v === 'object'\<close>: objects, arrays and \<open>null\<close>.\<close>

fun typeofObject :: "jsval \<Rightarrow> bool" where
  "typeofObject JNull = True"
| "typeofObject (JArr xs) = True"
| "typeofObject (JObj ps) = True"
| "typeofObject v = False"

text \<open>\<open>c ? a : b\<close> for the recurring pattern \<open>typeof ds.k === 'number' ? ds.k : d\<close>.\<close>

definition numberOr :: "jsval \<Rightarrow> jsval \<Rightarrow> jsval" where
  "numberOr v d = (if isNumber v then v else d)"

definition arrayOr :: "jsval \<Rightarrow> jsval \<Rightarrow> jsval" where
  "arrayOr v d = (if isArray v then v else d)"

definition booleanOr :: "jsval \<Rightarrow> jsval \<Rightarrow> jsval" where
  "booleanOr v d = (if isBoolean v then v else d)"

text \<open>The decimal numeral of an array index, as a property key.\<close>

fun indexKey :: "nat \<Rightarrow> string" where
  "indexKey n =
     (if n < 10 then [char_of (48 + n)]
      else indexKey (n div 10) @ [char_of (48 + n mod 10)])"

declare indexKey.simps [simp del]

text \<open>
  The own enumerable properties a spread \<open>{...v}\<close> copies: those of an object, the
  indexed elements of an array, the indexed characters of a string, and nothing for
  \<open>null\<close>, \<open>undefined\<close>, booleans, numbers and functions.
\<close>

fun spread :: "jsval \<Rightarrow> obj" where
  "spread (JObj ps) = ps"
| "spread (JArr xs) = map (\<lambda>i. (indexKey i, xs ! i)) [0..<length xs]"
| "spread (JStr s) = map (\<lambda>i. (indexKey i, JStr [s ! i])) [0..<length s]"
| "spread v = []"

text \<open>
  An object literal \<open>{k1: v1, ..., ...bag}\<close>: the properties are defined from left to
  right; a key defined again keeps its place and takes the later value.
\<close>

definition assign :: "obj \<Rightarrow> string \<times> jsval \<Rightarrow> obj" where
  "assign ob kv = AList.update (fst kv) (snd kv) ob"

definition literal :: "(string \<times> jsval) list \<Rightarrow> obj" where
  "literal kvs = foldl assign [] kvs"

subsection \<open>Arithmetic\<close>

text \<open>
  The special cases of IEEE arithmetic are written out; every exact result on finite
  operands goes through the rounding.
\<close>

fun is_neg :: "jsnum \<Rightarrow> bool" where
  "is_neg NegInf = True"
| "is_neg (Fin x) = (x < 0)"
| "is_neg a = False"

fun js_neg :: "jsnum \<Rightarrow> jsnum" where
  "js_neg NaN = NaN"
| "js_neg NegInf = PosInf"
| "js_neg PosInf = NegInf"
| "js_neg (Fin x) = Fin (- x)"

fun js_add :: "builtins \<Rightarrow> jsnum \<Rightarrow> jsnum \<Rightarrow> jsnum" where
  "js_add B NaN b = NaN"
| "js_add B a NaN = NaN"
| "js_add B (Fin x) (Fin y) = roundNum B (x + y)"
| "js_add B PosInf NegInf = NaN"
| "js_add B NegInf PosInf = NaN"
| "js_add B PosInf b = PosInf"
| "js_add B a PosInf = PosInf"
| "js_add B a b = NegInf"

definition js_sub :: "builtins \<Rightarrow> jsnum \<Rightarrow> jsnum \<Rightarrow> jsnum" where
  "js_sub B a b = js_add B a (js_neg b)"

fun js_mul :: "builtins \<Rightarrow> jsnum \<Rightarrow> jsnum \<Rightarrow> jsnum" where
  "js_mul B NaN b = NaN"
| "js_mul B a NaN = NaN"
| "js_mul B (Fin x) (Fin y) = roundNum B (x * y)"
| "js_mul B a b =
     (if a = Fin 0 \<or> b = Fin 0 then NaN
      else if is_neg a = is_neg b then PosInf else NegInf)"

fun js_div :: "builtins \<Rightarrow> jsnum \<Rightarrow> jsnum \<Rightarrow> jsnum" where
  "js_div B NaN b = NaN"
| "js_div B a NaN = NaN"
| "js_div B (Fin x) (Fin y) =
     (if y = 0 then (if x = 0 then NaN else if x < 0 then NegInf else PosInf)
      else roundNum B (x / y))"
| "js_div B (Fin x) b = Fin 0"
| "js_div B a (Fin y) = (if is_neg a = (y < 0) then PosInf else NegInf)"
| "js_div B a b = NaN"

subsection \<open>The histogram binner (\<open>_buildHistogramDataset\<close>)\<close>

text \<open>
  \<open>ds.data.filter(v => typeof v === 'number' && !isNaN(v))\<close> in
  \<^verbatim>\<open>src/AJAYJS/charts/charts.js\<close>; \<open>ds.data.filter(v => typeof v === 'number')\<close> in
  \<^verbatim>\<open>src/charts/charts.js\<close>. Both keep the infinities; the second keeps \<open>NaN\<close> too.
\<close>

fun numbersOf :: "jsval list \<Rightarrow> jsnum list" where
  "numbersOf [] = []"
| "numbersOf (JNum n # vs) = n # numbersOf vs"
| "numbersOf (v # vs) = numbersOf vs"

definition rawValues_charts :: "obj \<Rightarrow> jsnum list" where
  "rawValues_charts ds = (case get ds ''data'' of JArr xs \<Rightarrow> numbersOf xs | _ \<Rightarrow> [])"

definition rawValues_ajayjs :: "obj \<Rightarrow> jsnum list" where
  "rawValues_ajayjs ds =
     (case get ds ''data'' of JArr xs \<Rightarrow> filter (\<lambda>n. n \<noteq> NaN) (numbersOf xs) | _ \<Rightarrow> [])"

text \<open>
  \<open>typeof ds.bins === 'number' && ds.bins > 0 ? ds.bins : 10\<close>, and without the test
  \<open>ds.bins > 0\<close> in \<^verbatim>\<open>src/charts/charts.js\<close>.
\<close>

definition binCount_ajayjs :: "obj \<Rightarrow> jsnum" where
  "binCount_ajayjs ds =
     (case get ds ''bins'' of
        JNum n \<Rightarrow> if js_gt n (Fin 0) then n else Fin 10
      | _ \<Rightarrow> Fin 10)"

definition binCount_charts :: "obj \<Rightarrow> jsnum" where
  "binCount_charts ds = (case get ds ''bins'' of JNum n \<Rightarrow> n | _ \<Rightarrow> Fin 10)"

text \<open>
  \<open>Array.isArray(ds.binEdges) && ds.binEdges.length >= 2\<close>: the explicit edges, when
  they are used.
\<close>

definition explicitEdges :: "obj \<Rightarrow> jsval list option" where
  "explicitEdges ds =
     (case get ds ''binEdges'' of
        JArr es \<Rightarrow> if 2 \<le> length es then Some es else None
      | _ \<Rightarrow> None)"

text \<open>
  \<open>ds.binEdges.slice().sort((a, b) => a - b)\<close>. On numbers other than \<open>NaN\<close> the
  comparator is a consistent order and the result is the ascending arrangement
  (elements the comparator calls equal are equal numbers); it is computed here by
  insertion. With a \<open>NaN\<close> the comparator is not consistent, the order the engine
  leaves is implementation-defined, and the model stops with \<open>SortUnspecified\<close>; it
  does the same for an element that is not a number, which the declared type
  \<open>Array<number>\<close> of \<open>binEdges\<close> excludes.
\<close>

fun edgeNumbers :: "jsval list \<Rightarrow> jsnum list option" where
  "edgeNumbers [] = Some []"
| "edgeNumbers (JNum n # vs) =
     (if n = NaN then None
      else case edgeNumbers vs of None \<Rightarrow> None | Some ns \<Rightarrow> Some (n # ns))"
| "edgeNumbers (v # vs) = None"

fun insertEdge :: "jsnum \<Rightarrow> jsnum list \<Rightarrow> jsnum list" where
  "insertEdge a [] = [a]"
| "insertEdge a (b # bs) = (if js_le a b then a # b # bs else b # insertEdge a bs)"

fun sortEdges :: "jsnum list \<Rightarrow> jsnum list" where
  "sortEdges [] = []"
| "sortEdges (a # as) = insertEdge a (sortEdges as)"

text \<open>
  \<open>for (let i = 0; i <= binCount; i++) edges.push(minVal + i * binWidth)\<close>, for a
  finite \<open>binCount = k\<close>. With \<open>binCount = Infinity\<close> the loop never ends
  (\<open>Diverges\<close>); with \<open>NaN\<close> or \<open>-Infinity\<close> its body never runs.
\<close>

function fillEdges ::
  "builtins \<Rightarrow> jsnum \<Rightarrow> jsnum \<Rightarrow> real \<Rightarrow> nat \<Rightarrow> jsnum list \<Rightarrow> jsnum list" where
  "fillEdges B minVal binWidth k i edges =
     (if real i \<le> k
      then fillEdges B minVal binWidth k (Suc i)
             (edges @ [js_add B minVal (js_mul B (Fin (real i)) binWidth)])
      else edges)"
  by pat_completeness auto
termination
  by (relation "measure (\<lambda>(B, minVal, binWidth, k, i, edges). nat \<lfloor>k\<rfloor> + 1 - i)")
     (auto dest: le_nat_floor)

declare fillEdges.simps [simp del]

definition pushEdges :: "builtins \<Rightarrow> jsnum \<Rightarrow> jsnum \<Rightarrow> jsnum \<Rightarrow> js_error + jsnum list" where
  "pushEdges B minVal binWidth binCount =
     (case binCount of
        Fin k \<Rightarrow> Inr (fillEdges B minVal binWidth k 0 [])
      | PosInf \<Rightarrow> Inl Diverges
      | _ \<Rightarrow> Inr [])"

text \<open>
  The edges of \<^verbatim>\<open>src/AJAYJS/charts/charts.js\<close> (lines 530-543): explicit edges are
  sorted, then extended by the observed minimum and maximum; computed edges have their
  last one raised to the maximum when it falls short.
\<close>

definition extendEdges :: "jsnum \<Rightarrow> jsnum \<Rightarrow> jsnum list \<Rightarrow> jsnum list" where
  "extendEdges minVal maxVal edges =
     (let e1 = (if js_lt minVal (hd edges) then minVal # edges else edges)
      in if js_gt maxVal (last e1) then e1 @ [maxVal] else e1)"

definition clampLast :: "jsnum \<Rightarrow> jsnum list \<Rightarrow> jsnum list" where
  "clampLast maxVal edges =
     (if edges \<noteq> [] \<and> js_lt (last edges) maxVal
      then edges[length edges - 1 := maxVal] else edges)"

definition histogramEdges_ajayjs :: "builtins \<Rightarrow> obj \<Rightarrow> jsnum list \<Rightarrow> js_error + jsnum list" where
  "histogramEdges_ajayjs B ds rawValues =
     (let minVal = math_min rawValues;
          maxVal = math_max rawValues;
          binCount = binCount_ajayjs ds
      in case explicitEdges ds of
           Some es \<Rightarrow>
             (case edgeNumbers es of
                None \<Rightarrow> Inl SortUnspecified
              | Some ns \<Rightarrow> Inr (extendEdges minVal maxVal (sortEdges ns)))
         | None \<Rightarrow>
             (let binWidth = js_div B (js_sub B maxVal minVal) binCount
              in case pushEdges B minVal binWidth binCount of
                   Inl e \<Rightarrow> Inl e
                 | Inr edges \<Rightarrow> Inr (clampLast maxVal edges)))"

text \<open>
  The edges of \<^verbatim>\<open>src/charts/charts.js\<close> (lines 488-500): explicit edges are sorted and
  nothing more; computed edges are not clamped.
\<close>

definition histogramEdges_charts :: "builtins \<Rightarrow> obj \<Rightarrow> jsnum list \<Rightarrow> js_error + jsnum list" where
  "histogramEdges_charts B ds rawValues =
     (let minVal = math_min rawValues;
          maxVal = math_max rawValues;
          binCount = binCount_charts ds;
          binWidth = js_div B (js_sub B maxVal minVal) binCount
      in case explicitEdges ds of
           Some es \<Rightarrow>
             (case edgeNumbers es of
                None \<Rightarrow> Inl SortUnspecified
              | Some ns \<Rightarrow> Inr (sortEdges ns))
         | None \<Rightarrow> pushEdges B minVal binWidth binCount)"

text \<open>
  The counting loop, the same in both files. The inner \<open>for\<close> over the bins, with its
  early \<open>return\<close> from the callback of \<open>forEach\<close>:
  \<^verbatim>\<open>
  for (let i = 0; i < edges.length - 1; i++) {
      if (val >= edges[i] && val < edges[i + 1]) { freq[i]++; return; }
      if (i === edges.length - 2 && val === edges[i + 1]) { freq[i]++; }
  }
  \<close>
\<close>

function binLoop :: "jsnum list \<Rightarrow> jsnum \<Rightarrow> nat \<Rightarrow> nat list \<Rightarrow> nat list" where
  "binLoop edges val i freq =
     (if Suc i < length edges then
        (if js_ge val (edges ! i) \<and> js_lt val (edges ! Suc i)
         then freq[i := Suc (freq ! i)]
         else binLoop edges val (Suc i)
                (if Suc (Suc i) = length edges \<and> js_eq val (edges ! Suc i)
                 then freq[i := Suc (freq ! i)] else freq))
      else freq)"
  by pat_completeness auto
termination
  by (relation "measure (\<lambda>(edges, val, i, freq). length edges - i)") auto

declare binLoop.simps [simp del]

text \<open>
  \<open>new Array(edges.length - 1).fill(0)\<close> raises a \<open>RangeError\<close> for the length \<open>-1\<close>,
  that is when there is no edge at all; \<open>rawValues.forEach\<close> then runs the loop for
  every value in turn.
\<close>

definition countFrequencies :: "jsnum list \<Rightarrow> jsnum list \<Rightarrow> js_error + nat list" where
  "countFrequencies edges rawValues =
     (if edges = [] then Inl RangeError
      else Inr (foldl (\<lambda>freq val. binLoop edges val 0 freq)
                  (replicate (length edges - 1) 0) rawValues))"

text \<open>
  \<open>freq.map((count, i) => ({ x: label, y: count }))\<close> with the label
  \<open>edges[i].toFixed(2) + sep + edges[i + 1].toFixed(2)\<close>; the separator is
  \<open>" - "\<close> in \<^verbatim>\<open>src/AJAYJS/charts/charts.js\<close> and an en dash between two spaces in
  \<^verbatim>\<open>src/charts/charts.js\<close>.
\<close>

definition binLabel :: "builtins \<Rightarrow> string \<Rightarrow> jsnum list \<Rightarrow> nat \<Rightarrow> string" where
  "binLabel B sep edges i = toFixed2 B (edges ! i) @ sep @ toFixed2 B (edges ! Suc i)"

definition dataArray :: "builtins \<Rightarrow> string \<Rightarrow> jsnum list \<Rightarrow> nat list \<Rightarrow> jsval list" where
  "dataArray B sep edges freq =
     map (\<lambda>i. JObj [(''x'', JStr (binLabel B sep edges i)),
                     (''y'', JNum (Fin (real (freq ! i))))])
       [0..<length freq]"

definition sep_ajayjs :: string where
  "sep_ajayjs = '' - ''"

definition sep_charts :: string where
  "sep_charts = [CHR '' '', CHR 0xE2, CHR 0x80, CHR 0x93, CHR '' '']"

definition emptyHistogram :: "obj \<Rightarrow> jsval \<Rightarrow> obj" where
  "emptyHistogram ds defaultColor =
     literal [(''label'', coalesce (get ds ''label'') (JStr ''Histogram'')),
              (''data'', JArr []),
              (''backgroundColor'', defaultColor)]"

definition buildHistogramDataset_ajayjs :: "builtins \<Rightarrow> obj \<Rightarrow> jsval \<Rightarrow> js_error + obj" where
  "buildHistogramDataset_ajayjs B ds defaultColor =
     (let rawValues = rawValues_ajayjs ds in
      if rawValues = [] then Inr (emptyHistogram ds defaultColor)
      else case histogramEdges_ajayjs B ds rawValues of
        Inl e \<Rightarrow> Inl e
      | Inr edges \<Rightarrow>
         (case countFrequencies edges rawValues of
            Inl e \<Rightarrow> Inl e
          | Inr freq \<Rightarrow>
              Inr (literal
                ([(''label'', coalesce (get ds ''label'') (JStr ''Histogram'')),
                  (''data'', JArr (dataArray B sep_ajayjs edges freq)),
                  (''backgroundColor'', coalesce (get ds ''backgroundColor'') defaultColor),
                  (''borderColor'', coalesce (get ds ''borderColor'') defaultColor),
                  (''borderWidth'', numberOr (get ds ''borderWidth'') (JNum (Fin 1))),
                  (''barPercentage'', JNum (Fin 1)),
                  (''categoryPercentage'', JNum (Fin 1))]
                 @ spread (coalesce (get ds ''additionalProps'') (JObj []))))))"

definition buildHistogramDataset_charts :: "builtins \<Rightarrow> obj \<Rightarrow> jsval \<Rightarrow> js_error + obj" where
  "buildHistogramDataset_charts B ds defaultColor =
     (let rawValues = rawValues_charts ds in
      if rawValues = [] then Inr (emptyHistogram ds defaultColor)
      else case histogramEdges_charts B ds rawValues of
        Inl e \<Rightarrow> Inl e
      | Inr edges \<Rightarrow>
         (case countFrequencies edges rawValues of
            Inl e \<Rightarrow> Inl e
          | Inr freq \<Rightarrow>
              Inr (literal
                ([(''label'', coalesce (get ds ''label'') (JStr ''Histogram'')),
                  (''data'', JArr (dataArray B sep_charts edges freq)),
                  (''backgroundColor'', coalesce (get ds ''backgroundColor'') defaultColor),
                  (''borderColor'', coalesce (get ds ''borderColor'') defaultColor),
                  (''borderWidth'', numberOr (get ds ''borderWidth'') (JNum (Fin 1)))]
                 @ spread (coalesce (get ds ''additionalProps'') (JObj []))))))"


subsection \<open>Deep merge (\<open>_deepMerge\<close>, the same in both files)\<close>

text \<open>
  \<open>key in target\<close> raises a \<open>TypeError\<close> when \<open>target\<close> is not an object; this is the
  case of \<open>null\<close>, which passes the test \<open>typeof target[key] === 'object'\<close> one level
  up. Keys are own properties: what \<open>Object.prototype\<close> lets every object inherit
  (a key such as \<^verbatim>\<open>__proto__\<close>, which \<open>in\<close> finds in every object and whose
  assignment sets the prototype) is not modelled, nor are the own properties of a
  function value.
\<close>

fun hasKey :: "jsval \<Rightarrow> string \<Rightarrow> js_error + bool" where
  "hasKey (JObj ps) k = Inr (k \<in> fst ` set ps)"
| "hasKey (JArr xs) k = Inr (k = ''length'' \<or> k \<in> set (map indexKey [0..<length xs]))"
| "hasKey (JFun f env) k = Inr False"
| "hasKey v k = Inl TypeError"

text \<open>\<open>target[key]\<close>.\<close>

fun member :: "jsval \<Rightarrow> string \<Rightarrow> jsval" where
  "member (JObj ps) k = get ps k"
| "member (JArr xs) k =
     (if k = ''length'' then JNum (Fin (real (length xs))) else get (spread (JArr xs)) k)"
| "member v k = JUndefined"

text \<open>
  \<^verbatim>\<open>
  _deepMerge(target, source) {
      const out = { ...target };
      for (const key in source) {
          if (source[key] !== null && typeof source[key] === 'object' &&
              !Array.isArray(source[key]) && key in target &&
              typeof target[key] === 'object' && !Array.isArray(target[key])) {
              out[key] = this._deepMerge(target[key], source[key]);
          } else {
              out[key] = source[key];
          }
      }
      return out;
  }
  \<close>
  \<open>mergeKeys target out source\<close> is the \<open>for\<close> loop over the properties of \<open>source\<close> that
  are still to be visited, \<open>out\<close> being the object built so far.
\<close>

fun mergeKeys :: "jsval \<Rightarrow> obj \<Rightarrow> jsval \<Rightarrow> js_error + obj" where
  "mergeKeys target out (JObj []) = Inr out"
| "mergeKeys target out (JObj ((key, sv) # rest)) =
     (if sv \<noteq> JNull \<and> typeofObject sv \<and> \<not> isArray sv then
        (case hasKey target key of
           Inl e \<Rightarrow> Inl e
         | Inr present \<Rightarrow>
            if present \<and> typeofObject (member target key) \<and> \<not> isArray (member target key)
            then (case mergeKeys (member target key) (spread (member target key)) sv of
                    Inl e \<Rightarrow> Inl e
                  | Inr merged \<Rightarrow> mergeKeys target (assign out (key, JObj merged)) (JObj rest))
            else mergeKeys target (assign out (key, sv)) (JObj rest))
      else mergeKeys target (assign out (key, sv)) (JObj rest))"
| "mergeKeys target out v = Inr out"

definition deepMerge :: "jsval \<Rightarrow> jsval \<Rightarrow> js_error + obj" where
  "deepMerge target source = mergeKeys target (spread target) (JObj (spread source))"

subsection \<open>Palette (\<open>_generatePalette\<close>, the same in both files)\<close>

definition lightPalette :: "string list" where
  "lightPalette =
     [''#e63946'', ''#f1faee'', ''#a8dadc'', ''#457b9d'', ''#1d3557'',
      ''#ffb703'', ''#fb8500'', ''#023047'', ''#8ecae6'', ''#219ebc'']"

definition darkPalette :: "string list" where
  "darkPalette =
     [''#ff4d4d'', ''#ffaa4d'', ''#4dff88'', ''#4d94ff'', ''#c44dff'',
      ''#ff4dc4'', ''#4dffef'', ''#ffd24d'', ''#8aff4d'', ''#ff8f4d'']"

text \<open>\<open>Array.from({ length: n }, (_, i) => base[i % base.length])\<close>.\<close>

definition generatePalette :: "nat \<Rightarrow> string \<Rightarrow> string list" where
  "generatePalette n theme =
     (let base = (if theme = ''light'' then lightPalette else darkPalette)
      in map (\<lambda>i. base ! (i mod length base)) [0..<n])"

subsection \<open>Dataset normalizer (\<open>_normalizeDataset\<close>)\<close>

text \<open>\<open>xs[i]\<close> on an array: \<open>undefined\<close> out of range.\<close>

definition elemAt :: "jsval list \<Rightarrow> nat \<Rightarrow> jsval" where
  "elemAt xs i = (if i < length xs then xs ! i else JUndefined)"

text \<open>The caller's passthrough bag, as every branch splices it: \<open>...(ds.additionalProps ?? {})\<close>.\<close>

definition passthrough :: "obj \<Rightarrow> obj" where
  "passthrough ds = spread (coalesce (get ds ''additionalProps'') (JObj []))"

text \<open>\<open>base.k1 = v1; base.k2 = v2; ...\<close>: assignments to an object already built.\<close>

definition assigns :: "obj \<Rightarrow> (string \<times> jsval) list \<Rightarrow> obj" where
  "assigns ob kvs = foldl assign ob kvs"

text \<open>The operand conversion of \<open>-\<close>; a number converts to itself.\<close>

definition toNum :: "builtins \<Rightarrow> jsval \<Rightarrow> jsnum" where
  "toNum B v = (case v of JNum n \<Rightarrow> n | _ \<Rightarrow> ToNumber B v)"

text \<open>
  \<open>Array.isArray(ds.data) && ds.data.length >= 1
     ? [ds.data[0], Math.max(0, (ds.data[1] ?? 100) - ds.data[0])] : [0, 100]\<close>.
\<close>

definition gaugeData :: "builtins \<Rightarrow> obj \<Rightarrow> jsval" where
  "gaugeData B ds =
     (case get ds ''data'' of
        JArr xs \<Rightarrow>
          if 1 \<le> length xs
          then JArr [elemAt xs 0,
                     JNum (math_max [Fin 0,
                        js_sub B (toNum B (coalesce (elemAt xs 1) (JNum (Fin 100))))
                                 (toNum B (elemAt xs 0))])]
          else JArr [JNum (Fin 0), JNum (Fin 100)]
      | _ \<Rightarrow> JArr [JNum (Fin 0), JNum (Fin 100)])"

text \<open>
  \<^verbatim>\<open>src/AJAYJS/charts/charts.js\<close>, lines 269-366. \<open>base\<close> is built first, the passthrough
  bag spliced last into it; the \<open>switch\<close> then either assigns further properties to
  \<open>base\<close> (line, scatter, radar, area, pie, doughnut, polararea, bubble) or returns a
  literal of its own, which ends with the passthrough bag. \<open>theme\<close> is
  \<open>this._config.theme\<close>, read by the treemap branch.
\<close>

definition base_ajayjs :: "obj \<Rightarrow> jsval \<Rightarrow> obj" where
  "base_ajayjs ds defaultColor =
     literal
       ([(''label'', coalesce (get ds ''label'') (JStr [])),
         (''data'', arrayOr (get ds ''data'') (JArr [])),
         (''backgroundColor'', coalesce (get ds ''backgroundColor'') defaultColor),
         (''borderColor'', coalesce (get ds ''borderColor'') defaultColor),
         (''borderWidth'', numberOr (get ds ''borderWidth'') (JNum (Fin 2)))]
        @ passthrough ds)"

definition normalizeDataset_ajayjs ::
  "builtins \<Rightarrow> string \<Rightarrow> obj \<Rightarrow> jsval \<Rightarrow> string \<Rightarrow> js_error + obj" where
  "normalizeDataset_ajayjs B theme ds defaultColor lowerType =
     (let base = base_ajayjs ds defaultColor in
      if lowerType \<in> {''line'', ''scatter'', ''radar''} then
        Inr (assigns base
          [(''pointRadius'', numberOr (get ds ''pointRadius'') (JNum (Fin 4))),
           (''fill'', booleanOr (get ds ''fill'') (JBool False)),
           (''tension'', numberOr (get ds ''tension'') (JNum (Fin (4 / 10))))])
      else if lowerType = ''area'' then
        Inr (assigns base
          [(''pointRadius'', numberOr (get ds ''pointRadius'') (JNum (Fin 4))),
           (''fill'', booleanOr (get ds ''fill'') (JBool True)),
           (''tension'', numberOr (get ds ''tension'') (JNum (Fin (4 / 10))))])
      else if lowerType \<in> {''pie'', ''doughnut'', ''polararea''} then
        Inr (assigns base
          [(''backgroundColor'', arrayOr (get ds ''backgroundColor'') (JArr [defaultColor])),
           (''hoverOffset'', numberOr (get ds ''hoverOffset'') (JNum (Fin 4))),
           (''borderWidth'', numberOr (get ds ''borderWidth'') (JNum (Fin 2)))])
      else if lowerType = ''bubble'' then
        Inr (assigns base
          [(''radius'',
            (if isNumber (get ds ''radius'') \<or> isArray (get ds ''radius'')
             then get ds ''radius'' else JNum (Fin 5)))])
      else if lowerType = ''histogram'' then
        buildHistogramDataset_ajayjs B ds defaultColor
      else if lowerType \<in> {''candlestick'', ''ohlc''} then
        Inr (literal
          ([(''label'', coalesce (get ds ''label'') (JStr ''OHLC'')),
            (''data'', get base ''data''),
            (''rising'', JObj [(''color'', coalesce (get ds ''risingColor'') (JStr ''#26a69a''))]),
            (''falling'', JObj [(''color'', coalesce (get ds ''fallingColor'') (JStr ''#ef5350''))]),
            (''neutral'', JObj [(''color'', coalesce (get ds ''neutralColor'') (JStr ''#999999''))])]
           @ passthrough ds))
      else if lowerType = ''heatmap'' then
        Inr (literal
          ([(''label'', coalesce (get ds ''label'') (JStr ''Heatmap'')),
            (''data'', get base ''data''),
            (''backgroundColor'', coalesce (get ds ''backgroundColor'') defaultColor),
            (''borderColor'', coalesce (get ds ''borderColor'') defaultColor),
            (''borderWidth'', numberOr (get ds ''borderWidth'') (JNum (Fin 1)))]
           @ passthrough ds))
      else if lowerType = ''treemap'' then
        Inr (literal
          ([(''label'', coalesce (get ds ''label'') (JStr ''Treemap'')),
            (''data'', get base ''data''),
            (''key'', coalesce (get ds ''key'') (JStr ''value'')),
            (''groups'', arrayOr (get ds ''groups'') (JArr [])),
            (''backgroundColor'', get base ''backgroundColor''),
            (''spacing'', numberOr (get ds ''spacing'') (JNum (Fin 2))),
            (''fontColor'', coalesce (get ds ''fontColor'')
               (JStr (if theme = ''light'' then ''#000000'' else ''#ffffff'')))]
           @ passthrough ds))
      else if lowerType = ''boxplot'' then
        Inr (literal
          ([(''label'', coalesce (get ds ''label'') (JStr ''Boxplot'')),
            (''data'', get base ''data''),
            (''padding'', numberOr (get ds ''padding'') (JNum (Fin 10))),
            (''itemRadius'', numberOr (get ds ''itemRadius'') (JNum (Fin 2))),
            (''outlierColor'', coalesce (get ds ''outlierColor'') (JStr ''#777777'')),
            (''itemStyle'', coalesce (get ds ''itemStyle'') (JStr ''circle''))]
           @ passthrough ds))
      else if lowerType = ''gauge'' then
        Inr (literal
          ([(''label'', coalesce (get ds ''label'') (JStr ''Gauge'')),
            (''data'', gaugeData B ds),
            (''backgroundColor'', coalesce (get ds ''backgroundColor'')
               (JArr [defaultColor, JStr ''#e0e0e0''])),
            (''borderWidth'', JNum (Fin 0)),
            (''circumference'', numberOr (get ds ''circumference'') (JNum (Fin 180))),
            (''rotation'', numberOr (get ds ''rotation'') (JNum (Fin (- 90)))),
            (''cutout'', coalesce (get ds ''cutout'') (JStr ''80%''))]
           @ passthrough ds))
      else Inr base)"

text \<open>
  \<^verbatim>\<open>src/charts/charts.js\<close>, lines 288-358. \<open>base\<close> holds \<open>pointRadius\<close>, \<open>fill\<close> and
  \<open>tension\<close> for every type, before the passthrough bag; every branch returns \<open>base\<close>
  or a literal that ends with the passthrough bag. The heatmap's \<open>backgroundColor\<close> is a
  function of the data index that has captured \<open>ds.backgroundColor\<close> and
  \<open>defaultColor\<close>.
\<close>

definition base_charts :: "obj \<Rightarrow> jsval \<Rightarrow> obj" where
  "base_charts ds defaultColor =
     literal
       ([(''label'', coalesce (get ds ''label'') (JStr [])),
         (''data'', arrayOr (get ds ''data'') (JArr [])),
         (''backgroundColor'', coalesce (get ds ''backgroundColor'') defaultColor),
         (''borderColor'', coalesce (get ds ''borderColor'') defaultColor),
         (''borderWidth'', numberOr (get ds ''borderWidth'') (JNum (Fin 2))),
         (''pointRadius'', numberOr (get ds ''pointRadius'') (JNum (Fin 4))),
         (''fill'', booleanOr (get ds ''fill'') (JBool False)),
         (''tension'', numberOr (get ds ''tension'') (JNum (Fin (4 / 10))))]
        @ passthrough ds)"

definition normalizeDataset_charts :: "obj \<Rightarrow> jsval \<Rightarrow> string \<Rightarrow> obj" where
  "normalizeDataset_charts ds defaultColor lowerType =
     (let base = base_charts ds defaultColor in
      if lowerType = ''histogram'' then
        literal
          ([(''label'', coalesce (get ds ''label'') (JStr ''Histogram'')),
            (''data'', get base ''data''),
            (''backgroundColor'', coalesce (get ds ''backgroundColor'') defaultColor),
            (''borderColor'', coalesce (get ds ''borderColor'') defaultColor),
            (''borderWidth'', get base ''borderWidth'')]
           @ passthrough ds)
      else if lowerType \<in> {''candlestick'', ''ohlc''} then
        literal
          ([(''label'', coalesce (get ds ''label'') (JStr ''OHLC'')),
            (''data'', get base ''data''),
            (''rising'', JObj [(''color'', coalesce (get ds ''risingColor'') (JStr ''#26a69a''))]),
            (''falling'', JObj [(''color'', coalesce (get ds ''fallingColor'') (JStr ''#ef5350''))])]
           @ passthrough ds)
      else if lowerType = ''heatmap'' then
        literal
          ([(''label'', coalesce (get ds ''label'') (JStr ''Heatmap'')),
            (''data'', get base ''data''),
            (''backgroundColor'',
               JFun ''heatmapBackgroundColor'' [get ds ''backgroundColor'', defaultColor]),
            (''borderWidth'', numberOr (get ds ''borderWidth'') (JNum (Fin 1)))]
           @ passthrough ds)
      else if lowerType = ''treemap'' then
        literal
          ([(''label'', coalesce (get ds ''label'') (JStr ''Treemap'')),
            (''data'', get base ''data''),
            (''key'', coalesce (get ds ''key'') (JStr ''value'')),
            (''groups'', arrayOr (get ds ''groups'') (JArr [])),
            (''backgroundColor'', get base ''backgroundColor'')]
           @ passthrough ds)
      else if lowerType = ''boxplot'' then
        literal
          ([(''label'', coalesce (get ds ''label'') (JStr ''Boxplot'')),
            (''data'', get base ''data''),
            (''padding'', numberOr (get ds ''padding'') (JNum (Fin 10))),
            (''itemRadius'', numberOr (get ds ''itemRadius'') (JNum (Fin 2))),
            (''outlierColor'', coalesce (get ds ''outlierColor'') (JStr ''#777''))]
           @ passthrough ds)
      else base)"

subsection \<open>Type resolution, palette and datasets (\<open>_buildAndRender\<close>)\<close>

text \<open>
  Of \<open>_buildAndRender\<close> the steps embedded are the resolution of the effective type, the
  choice of the palette and the normalization of the datasets. The option tree
  (\<open>_mergeThemeOptions\<close>), the labels and the call of the rendering library are not.
  The fields of \<open>this._config\<close> these steps read follow; \<open>type\<close> is taken to be a
  string (on any other value \<open>cfg.type.toLowerCase()\<close> raises), and a dataset to be an
  object.
\<close>

record config =
  cfg_type :: string
  cfg_datasets :: "obj list"
  cfg_theme :: string
  cfg_palette :: "jsval list"

text \<open>\<open>cfg.type.toLowerCase()\<close>, on ASCII letters (every type tag is ASCII).\<close>

definition lowerChar :: "char \<Rightarrow> char" where
  "lowerChar c =
     (let n = (of_char c :: nat) in if 65 \<le> n \<and> n \<le> 90 then char_of (n + 32) else c)"

definition toLowerCase :: "string \<Rightarrow> string" where
  "toLowerCase s = map lowerChar s"

text \<open>
  The \<open>switch\<close> that maps the requested type to the type handed to the renderer. In
  \<^verbatim>\<open>src/charts/charts.js\<close> (lines 129-160) this is all there is; \<open>ohlc\<close> stays \<open>ohlc\<close>.
\<close>

definition effectiveType_charts :: "string \<Rightarrow> string" where
  "effectiveType_charts t =
     (let lowerType = toLowerCase t in
      if lowerType = ''area'' then ''line''
      else if lowerType = ''heatmap'' then ''matrix''
      else if lowerType = ''treemap'' then ''treemap''
      else if lowerType = ''candlestick'' then ''candlestick''
      else if lowerType = ''ohlc'' then ''ohlc''
      else if lowerType = ''gauge'' then ''doughnut''
      else if lowerType = ''funnel'' then ''funnel''
      else if lowerType = ''boxplot'' then ''boxplot''
      else if lowerType = ''histogram'' then ''bar''
      else t)"

text \<open>
  In \<^verbatim>\<open>src/AJAYJS/charts/charts.js\<close> (lines 136-177) \<open>ohlc\<close> becomes \<open>candlestick\<close>, and
  an extension type is then looked up in the renderer, \<open>window.Chart\<close> as it is when
  \<open>_buildAndRender\<close> runs: \<open>controllers\<close> is what \<open>ChartJS.registry.getControllers()\<close>
  holds, when \<open>ChartJS.registry\<close> is there and \<open>getControllers\<close> is a function;
  \<open>pluginsGet\<close> is \<open>ChartJS.plugins.get\<close>, when \<open>ChartJS.plugins\<close> is there and \<open>get\<close> is
  a function.
\<close>

record renderer =
  controllers :: "string list option"
  pluginsGet :: "(string \<Rightarrow> jsval) option"

text \<open>\<open>!!v\<close>.\<close>

fun truthy :: "jsval \<Rightarrow> bool" where
  "truthy JUndefined = False"
| "truthy JNull = False"
| "truthy (JBool b) = b"
| "truthy (JNum n) = (n \<noteq> NaN \<and> n \<noteq> Fin 0)"
| "truthy (JStr s) = (s \<noteq> [])"
| "truthy v = True"

definition aliasType_ajayjs :: "string \<Rightarrow> string" where
  "aliasType_ajayjs t =
     (let lowerType = toLowerCase t in
      if lowerType = ''area'' then ''line''
      else if lowerType = ''heatmap'' then ''matrix''
      else if lowerType = ''treemap'' then ''treemap''
      else if lowerType = ''candlestick'' \<or> lowerType = ''ohlc'' then ''candlestick''
      else if lowerType = ''gauge'' then ''doughnut''
      else if lowerType = ''funnel'' then ''funnel''
      else if lowerType = ''boxplot'' then ''boxplot''
      else if lowerType = ''histogram'' then ''bar''
      else t)"

definition extensionTypes :: "string list" where
  "extensionTypes = [''matrix'', ''treemap'', ''candlestick'', ''funnel'', ''boxplot'']"

definition pluginRegistered :: "renderer \<Rightarrow> string \<Rightarrow> bool" where
  "pluginRegistered R t =
     (let registered = (case controllers R of Some cs \<Rightarrow> t \<in> set cs | None \<Rightarrow> False)
      in if \<not> registered
         then (case pluginsGet R of Some g \<Rightarrow> truthy (g t) | None \<Rightarrow> registered)
         else registered)"

definition effectiveType_ajayjs :: "renderer \<Rightarrow> string \<Rightarrow> string" where
  "effectiveType_ajayjs R t =
     (let effectiveType = aliasType_ajayjs t in
      if effectiveType \<in> set extensionTypes
      then (if \<not> pluginRegistered R effectiveType then ''bar'' else effectiveType)
      else effectiveType)"

text \<open>
  \<open>Array.isArray(cfg.palette) && cfg.palette.length ? cfg.palette
     : this._generatePalette(cfg.datasets.length, cfg.theme)\<close>, the same in both files
  (the constructor stores an array in \<open>cfg.palette\<close>).
\<close>

definition choosePalette :: "config \<Rightarrow> jsval list" where
  "choosePalette cfg =
     (if cfg_palette cfg \<noteq> [] then cfg_palette cfg
      else map JStr (generatePalette (length (cfg_datasets cfg)) (cfg_theme cfg)))"

text \<open>
  The colour handed to the normalizer for dataset \<open>i\<close>:
  \<open>palette[i % palette.length]\<close> in \<^verbatim>\<open>src/AJAYJS/charts/charts.js\<close> (line 190; with an
  empty palette \<open>i % 0\<close> is \<open>NaN\<close> and the read gives \<open>undefined\<close>), \<open>palette[i]\<close> in
  \<^verbatim>\<open>src/charts/charts.js\<close> (lines 179, 187, 191).
\<close>

definition datasetColor_ajayjs :: "jsval list \<Rightarrow> nat \<Rightarrow> jsval" where
  "datasetColor_ajayjs pal i =
     (if pal = [] then JUndefined else elemAt pal (i mod length pal))"

definition datasetColor_charts :: "jsval list \<Rightarrow> nat \<Rightarrow> jsval" where
  "datasetColor_charts pal i = elemAt pal i"

text \<open>\<open>cfg.datasets.map(...)\<close>: the first exception ends the whole map.\<close>

fun collect :: "(js_error + 'a) list \<Rightarrow> js_error + 'a list" where
  "collect [] = Inr []"
| "collect (Inl e # rs) = Inl e"
| "collect (Inr v # rs) = (case collect rs of Inl e \<Rightarrow> Inl e | Inr vs \<Rightarrow> Inr (v # vs))"

definition normalizedDatasets_ajayjs :: "builtins \<Rightarrow> config \<Rightarrow> js_error + obj list" where
  "normalizedDatasets_ajayjs B cfg =
     (let lowerType = toLowerCase (cfg_type cfg); pal = choosePalette cfg in
      collect (map (\<lambda>(i, ds).
                 normalizeDataset_ajayjs B (cfg_theme cfg) ds (datasetColor_ajayjs pal i) lowerType)
               (enumerate 0 (cfg_datasets cfg))))"

text \<open>
  \<^verbatim>\<open>src/charts/charts.js\<close>, lines 176-192: a histogram dataset goes to
  \<open>_buildHistogramDataset\<close>; otherwise the caller's dataset object is first changed in
  place (\<open>ds.fill = true\<close> for area; three properties for gauge) and then normalized.
\<close>

definition prepareDataset_charts :: "string \<Rightarrow> jsval \<Rightarrow> obj \<Rightarrow> obj" where
  "prepareDataset_charts lowerType color ds =
     (let ds1 = (if lowerType = ''area'' then assign ds (''fill'', JBool True) else ds)
      in if lowerType = ''gauge''
         then assigns ds1
                [(''backgroundColor'',
                    coalesce (get ds1 ''backgroundColor'') (JArr [color, JStr ''#e0e0e0''])),
                 (''hoverOffset'', coalesce (get ds1 ''hoverOffset'') (JNum (Fin 0))),
                 (''borderWidth'', JNum (Fin 0))]
         else ds1)"

definition renderDataset_charts :: "builtins \<Rightarrow> string \<Rightarrow> jsval \<Rightarrow> obj \<Rightarrow> js_error + obj" where
  "renderDataset_charts B lowerType color ds =
     (if lowerType = ''histogram'' then buildHistogramDataset_charts B ds color
      else Inr (normalizeDataset_charts (prepareDataset_charts lowerType color ds) color lowerType))"

definition normalizedDatasets_charts :: "builtins \<Rightarrow> config \<Rightarrow> js_error + obj list" where
  "normalizedDatasets_charts B cfg =
     (let lowerType = toLowerCase (cfg_type cfg); pal = choosePalette cfg in
      collect (map (\<lambda>(i, ds). renderDataset_charts B lowerType (datasetColor_charts pal i) ds)
               (enumerate 0 (cfg_datasets cfg))))"

subsection \<open>Dataset updates (\<open>removeDataset\<close>, \<open>updateData\<close>, the same in both files)\<close>

text \<open>
  The state of a chart instance: its configuration and, since \<open>Render()\<close> only starts a
  polling loop that ends in \<open>_buildAndRender\<close> once the library is loaded, the number of
  render requests made so far. Nothing else is written by the two operations.
\<close>

record chart =
  chart_config :: config
  renderRequests :: nat

definition Render :: "chart \<Rightarrow> chart" where
  "Render c = c\<lparr>renderRequests := Suc (renderRequests c)\<rparr>"

text \<open>
  \<open>datasets.splice(index, 1)\<close> for \<open>0 <= index < datasets.length\<close>: the start position is
  \<open>index\<close> truncated to an integer.
\<close>

definition splice1 :: "obj list \<Rightarrow> jsnum \<Rightarrow> obj list" where
  "splice1 ds index =
     (case index of
        Fin x \<Rightarrow> take (nat \<lfloor>x\<rfloor>) ds @ drop (Suc (nat \<lfloor>x\<rfloor>)) ds
      | _ \<Rightarrow> ds)"

definition removeDataset :: "jsnum \<Rightarrow> chart \<Rightarrow> chart" where
  "removeDataset index c =
     (let ds = cfg_datasets (chart_config c) in
      if js_ge index (Fin 0) \<and> js_lt index (Fin (real (length ds)))
      then Render (c\<lparr>chart_config := (chart_config c)\<lparr>cfg_datasets := splice1 ds index\<rparr>\<rparr>)
      else c)"

text \<open>
  \<open>this._config.datasets[dsIndex]\<close> for a number \<open>dsIndex\<close>: the element at that position
  when \<open>dsIndex\<close> is an integer within the array, \<open>undefined\<close> otherwise. A dataset is an
  object, hence truthy.
\<close>

definition datasetAt :: "obj list \<Rightarrow> jsnum \<Rightarrow> nat option" where
  "datasetAt ds dsIndex =
     (case dsIndex of
        Fin x \<Rightarrow>
          if 0 \<le> x \<and> x = real_of_int \<lfloor>x\<rfloor> \<and> nat \<lfloor>x\<rfloor> < length ds
          then Some (nat \<lfloor>x\<rfloor>) else None
      | _ \<Rightarrow> None)"

definition updateData :: "jsnum \<Rightarrow> jsval \<Rightarrow> chart \<Rightarrow> chart" where
  "updateData dsIndex newData c =
     (let ds = cfg_datasets (chart_config c) in
      case datasetAt ds dsIndex of
        Some i \<Rightarrow>
          Render (c\<lparr>chart_config := (chart_config c)
            \<lparr>cfg_datasets := ds[i := assign (ds ! i) (''data'', arrayOr newData (JArr []))]\<rparr>\<rparr>)
      | None \<Rightarrow> c)"

section \<open>Statements of the specification\<close>

text \<open>
  The binning rule in the specification's words. \<open>halfOpen edges i v\<close> is
  \<open>edges[i] <= v < edges[i+1]\<close>. \<open>countedIn edges v i\<close>: bin \<open>i\<close> is the bin the rule gives
  to the value \<open>v\<close>, that is the first half-open bin that holds \<open>v\<close>, or the last bin
  when no half-open bin holds \<open>v\<close> and \<open>v\<close> is the final edge. \<open>countedFrom\<close> is the same
  rule for a scan that starts at bin \<open>i\<close>.
\<close>

definition halfOpen :: "jsnum list \<Rightarrow> nat \<Rightarrow> jsnum \<Rightarrow> bool" where
  "halfOpen edges i v = (js_le (edges ! i) v \<and> js_lt v (edges ! Suc i))"

definition countedFrom :: "jsnum list \<Rightarrow> jsnum \<Rightarrow> nat \<Rightarrow> nat \<Rightarrow> bool" where
  "countedFrom edges v i k =
     (i \<le> k \<and> Suc k < length edges \<and> list_all (\<lambda>j. \<not> halfOpen edges j v) [i..<k] \<and>
      (halfOpen edges k v \<or> (Suc (Suc k) = length edges \<and> js_eq v (last edges))))"

definition countedIn :: "jsnum list \<Rightarrow> jsnum \<Rightarrow> nat \<Rightarrow> bool" where
  "countedIn edges v k =
     (Suc k < length edges \<and> list_all (\<lambda>j. \<not> halfOpen edges j v) [0..<k] \<and>
      (halfOpen edges k v \<or> (Suc (Suc k) = length edges \<and> js_eq v (last edges))))"

text \<open>Edges in ascending order, each \<open><=\<close> the next.\<close>

fun ascending :: "jsnum list \<Rightarrow> bool" where
  "ascending (a # b # bs) = (js_le a b \<and> ascending (b # bs))"
| "ascending bs = True"

text \<open>The example of the specification: values \<open>[1, 6, 10]\<close>, explicit edges \<open>[0, 5, 10]\<close>.\<close>

definition exampleDataset :: obj where
  "exampleDataset =
     [(''data'', JArr [JNum (Fin 1), JNum (Fin 6), JNum (Fin 10)]),
      (''binEdges'', JArr [JNum (Fin 0), JNum (Fin 5), JNum (Fin 10)])]"

definition exampleBins :: "builtins \<Rightarrow> string \<Rightarrow> jsval" where
  "exampleBins B sep =
     JArr [JObj [(''x'', JStr (toFixed2 B (Fin 0) @ sep @ toFixed2 B (Fin 5))),
                 (''y'', JNum (Fin 1))],
           JObj [(''x'', JStr (toFixed2 B (Fin 5) @ sep @ toFixed2 B (Fin 10))),
                 (''y'', JNum (Fin 2))]]"

text \<open>
  A closed example needs an engine. \<open>exactEngine\<close> computes exactly, prints every number
  as \<open>n\<close> and converts every value that is not a number to \<open>NaN\<close>; no example below
  depends on the printing or on the conversion.
\<close>

definition exactEngine :: builtins where
  "exactEngine = \<lparr>roundNum = Fin, toFixed2 = (\<lambda>n. ''n''), ToNumber = (\<lambda>v. NaN)\<rparr>"

text \<open>A chart with two datasets, for the examples of the update operations.\<close>

definition twoDatasets :: chart where
  "twoDatasets =
     \<lparr>chart_config =
        \<lparr>cfg_type = ''bar'',
         cfg_datasets = [[(''label'', JStr ''a'')], [(''label'', JStr ''b'')]],
         cfg_theme = ''dark'',
         cfg_palette = []\<rparr>,
      renderRequests = 0\<rparr>"

text \<open>Two datasets and an explicit palette of one colour.\<close>

definition shortPalette :: config where
  "shortPalette = (chart_config twoDatasets)\<lparr>cfg_palette := [JStr ''#111111'']\<rparr>"

text \<open>A renderer whose registry holds the built-in controllers only.\<close>

definition coreRenderer :: renderer where
  "coreRenderer = \<lparr>controllers = Some [''bar'', ''line'', ''doughnut''], pluginsGet = None\<rparr>"

text \<open>
  The types whose branch of \<open>_normalizeDataset\<close> in \<^verbatim>\<open>src/AJAYJS/charts/charts.js\<close>
  assigns properties to \<open>base\<close> after the passthrough bag has been spliced in.
\<close>

definition assigningTypes :: "string list" where
  "assigningTypes = [''line'', ''scatter'', ''radar'', ''area'', ''pie'', ''doughnut'',
                     ''polararea'', ''bubble'']"

text \<open>A line dataset whose passthrough bag asks for \<open>fill\<close>, and a histogram dataset
  without values whose passthrough bag sets \<open>barThickness\<close>.\<close>

definition lineWithPassthrough :: obj where
  "lineWithPassthrough =
     [(''data'', JArr [JNum (Fin 1)]),
      (''additionalProps'', JObj [(''fill'', JBool True)])]"

definition emptyWithPassthrough :: obj where
  "emptyWithPassthrough =
     [(''data'', JArr []),
      (''additionalProps'', JObj [(''barThickness'', JNum (Fin 5))])]"

text \<open>
  Deep merge in the specification's words. \<open>recurses target k sv\<close> is the test the code
  makes before it merges recursively at key \<open>k\<close>, where the override holds \<open>sv\<close>;
  \<open>mergedValue\<close> is the value the merged tree then holds at \<open>k\<close>: the recursive merge,
  or the override's value as it is. \<open>nullFree\<close>: no property of the tree, at any depth
  of nested objects, is \<open>null\<close>.
\<close>

definition recurses :: "jsval \<Rightarrow> string \<Rightarrow> jsval \<Rightarrow> bool" where
  "recurses target k sv =
     (sv \<noteq> JNull \<and> typeofObject sv \<and> \<not> isArray sv \<and> hasKey target k = Inr True \<and>
      typeofObject (member target k) \<and> \<not> isArray (member target k))"

definition mergedValue :: "jsval \<Rightarrow> string \<Rightarrow> jsval \<Rightarrow> jsval" where
  "mergedValue target k sv =
     (if recurses target k sv
      then (case deepMerge (member target k) sv of Inr m \<Rightarrow> JObj m | Inl e \<Rightarrow> JUndefined)
      else sv)"

fun nullFree :: "jsval \<Rightarrow> bool" where
  "nullFree (JObj ps) = list_all (\<lambda>kv. snd kv \<noteq> JNull \<and> nullFree (snd kv)) ps"
| "nullFree v = True"

text \<open>
  The bins of a single-valued input: \<open>k\<close> bins whose two edges are the common value
  \<open>c\<close>, all empty but the last, which holds the \<open>n\<close> values. \<open>sameValues\<close> is such an
  input, three times the value 5 with three bins asked for.
\<close>

definition degenerateBins :: "builtins \<Rightarrow> string \<Rightarrow> real \<Rightarrow> nat \<Rightarrow> nat \<Rightarrow> jsval" where
  "degenerateBins B sep c k n =
     JArr (map (\<lambda>i. JObj [(''x'', JStr (toFixed2 B (Fin c) @ sep @ toFixed2 B (Fin c))),
                            (''y'', JNum (Fin (real (if Suc i = k then n else 0))))])
            [0..<k])"

definition sameValues :: obj where
  "sameValues =
     [(''data'', JArr [JNum (Fin 5), JNum (Fin 5), JNum (Fin 5)]),
      (''bins'', JNum (Fin 3))]"

text \<open>Explicit edges \<open>[10, 5]\<close> with values below the first and above the last edge.\<close>

definition outsideEdges :: obj where
  "outsideEdges =
     [(''data'', JArr [JNum (Fin 1), JNum (Fin 6), JNum (Fin 12)]),
      (''binEdges'', JArr [JNum (Fin 10), JNum (Fin 5)])]"

text \<open>
  The bins the rule gives for the edges \<open>edges\<close> and the values \<open>vs\<close>: one record per
  bin, its label and the number of values the rule counts in it.
\<close>

definition countedBins :: "builtins \<Rightarrow> string \<Rightarrow> jsnum list \<Rightarrow> jsnum list \<Rightarrow> jsval" where
  "countedBins B sep edges vs =
     JArr (map (\<lambda>i. JObj [(''x'', JStr (binLabel B sep edges i)),
                            (''y'', JNum (Fin (real (length (filter (\<lambda>v. countedIn edges v i) vs)))))])
            [0..<length edges - 1])"

section \<open>The order on numbers\<close>

lemma js_le_trans: "js_le a b \<Longrightarrow> js_le b c \<Longrightarrow> js_le a c"
  by (cases a; cases b; cases c) (auto simp: js_le_def js_eq_def)

lemma js_lt_not_le: "js_lt a b \<Longrightarrow> \<not> js_le b a"
  by (cases a; cases b) (auto simp: js_le_def js_eq_def)

lemma js_le_total: "a \<noteq> NaN \<Longrightarrow> b \<noteq> NaN \<Longrightarrow> js_le a b \<or> js_le b a"
  by (cases a; cases b) (auto simp: js_le_def js_eq_def)

lemma js_le_refl: "a \<noteq> NaN \<Longrightarrow> js_le a a"
  by (simp add: js_le_def js_eq_def)

lemma ascending_le_last:
  "ascending edges \<Longrightarrow> j < length edges \<Longrightarrow> edges ! j \<noteq> NaN \<Longrightarrow> js_le (edges ! j) (last edges)"
proof (induction edges arbitrary: j rule: ascending.induct)
  case (1 a b bs)
  show ?case
  proof (cases j)
    case 0
    have "js_le a b" using "1.prems" by simp
    then have "b \<noteq> NaN" by (cases a; cases b) (auto simp: js_le_def js_eq_def)
    then have "js_le ((b # bs) ! 0) (last (b # bs))"
      using "1.prems" by (intro "1.IH") simp_all
    with \<open>js_le a b\<close> 0 show ?thesis by (auto intro: js_le_trans)
  next
    case (Suc j')
    with "1.prems" have "js_le ((b # bs) ! j') (last (b # bs))"
      by (intro "1.IH") simp_all
    with Suc show ?thesis by simp
  qed
qed (simp_all add: js_le_refl)

section \<open>The counting loop\<close>

lemma binLoop_length: "length (binLoop edges v i freq) = length freq"
proof (induction edges v i freq rule: binLoop.induct)
  case (1 edges val i freq)
  show ?case
    by (subst binLoop.simps) (simp add: 1)
qed

lemma countedFrom_step:
  assumes "Suc i < length edges"
  shows "countedFrom edges v i k =
           (if halfOpen edges i v then k = i
            else (k = i \<and> Suc (Suc i) = length edges \<and> js_eq v (edges ! Suc i))
               \<or> countedFrom edges v (Suc i) k)"
proof (cases "k = i")
  case True
  have "Suc (Suc i) = length edges \<Longrightarrow> last edges = edges ! Suc i"
    by (cases edges rule: rev_cases) (auto simp: nth_append)
  with True assms show ?thesis
    by (auto simp: countedFrom_def)
next
  case False
  show ?thesis
  proof (cases "i < k")
    case True
    then have "[i..<k] = i # [Suc i..<k]" by (simp add: upt_conv_Cons)
    with True show ?thesis by (auto simp: countedFrom_def)
  next
    case False
    with \<open>k \<noteq> i\<close> show ?thesis by (auto simp: countedFrom_def)
  qed
qed

lemma binLoop_nth:
  "k < length freq \<Longrightarrow> length freq = length edges - 1 \<Longrightarrow>
   binLoop edges v i freq ! k = freq ! k + (if countedFrom edges v i k then 1 else 0)"
proof (induction edges v i freq rule: binLoop.induct)
  case (1 edges val i freq)
  show ?case
  proof (cases "Suc i < length edges")
    case False
    then have "\<not> countedFrom edges val i k" by (auto simp: countedFrom_def)
    with False show ?thesis by (subst binLoop.simps) simp
  next
    case True
    note step = countedFrom_step [OF True, of val k]
    show ?thesis
    proof (cases "halfOpen edges i val")
      case True
      with \<open>Suc i < length edges\<close> "1.prems" show ?thesis
        by (subst binLoop.simps) (auto simp: step halfOpen_def js_ge_def nth_list_update)
    next
      case False
      define freq' where "freq' =
        (if Suc (Suc i) = length edges \<and> js_eq val (edges ! Suc i)
         then freq[i := Suc (freq ! i)] else freq)"
      have cond: "\<not> (js_ge val (edges ! i) \<and> js_lt val (edges ! Suc i))"
        using False by (simp add: halfOpen_def js_ge_def)
      have unfold: "binLoop edges val i freq = binLoop edges val (Suc i) freq'"
        using \<open>Suc i < length edges\<close> cond
        by (subst binLoop.simps) (auto simp: freq'_def)
      have IH: "binLoop edges val (Suc i) freq' ! k
                  = freq' ! k + (if countedFrom edges val (Suc i) k then 1 else 0)"
        unfolding freq'_def
        using \<open>Suc i < length edges\<close> cond "1.prems"
        by (intro "1.IH") simp_all
      have nth: "freq' ! k = freq ! k +
          (if k = i \<and> Suc (Suc i) = length edges \<and> js_eq val (edges ! Suc i) then 1 else 0)"
        using "1.prems" by (simp add: freq'_def nth_list_update)
      have excl: "countedFrom edges val (Suc i) k \<Longrightarrow> k \<noteq> i"
        by (auto simp: countedFrom_def)
      show ?thesis
        using False excl by (auto simp: unfold IH nth step)
    qed
  qed
qed

lemma countedFrom_0: "countedFrom edges v 0 k = countedIn edges v k"
  by (simp add: countedFrom_def countedIn_def)

lemma foldl_binLoop_length:
  "length (foldl (\<lambda>freq val. binLoop edges val 0 freq) f0 vs) = length f0"
  by (induction vs arbitrary: f0) (simp_all add: binLoop_length)

lemma foldl_binLoop_nth:
  "k < length f0 \<Longrightarrow> length f0 = length edges - 1 \<Longrightarrow>
   foldl (\<lambda>freq val. binLoop edges val 0 freq) f0 vs ! k
     = f0 ! k + length (filter (\<lambda>v. countedIn edges v k) vs)"
proof (induction vs arbitrary: f0)
  case Nil
  then show ?case by simp
next
  case (Cons v vs)
  have "foldl (\<lambda>freq val. binLoop edges val 0 freq) (binLoop edges v 0 f0) vs ! k
        = binLoop edges v 0 f0 ! k + length (filter (\<lambda>v. countedIn edges v k) vs)"
    using Cons.prems by (intro Cons.IH) (simp_all add: binLoop_length)
  with Cons.prems show ?case
    by (simp add: binLoop_nth countedFrom_0)
qed

lemma countFrequencies_length:
  "countFrequencies edges vs = Inr freq \<Longrightarrow> length freq = length edges - 1"
  by (auto simp: countFrequencies_def foldl_binLoop_length split: if_splits)

lemma countFrequencies_nth:
  "countFrequencies edges vs = Inr freq \<Longrightarrow> k < length freq \<Longrightarrow>
   freq ! k = length (filter (\<lambda>v. countedIn edges v k) vs)"
  by (auto simp: countFrequencies_def foldl_binLoop_length foldl_binLoop_nth split: if_splits)

lemma final_edge_in_last_bin:
  assumes "ascending edges" and "2 \<le> length edges" and "js_eq v (last edges)"
  shows "countedIn edges v (length edges - 2)"
proof -
  have v: "v = last edges" "v \<noteq> NaN" using assms(3) by (auto simp: js_eq_def)
  have "\<not> halfOpen edges j v" if "Suc j < length edges" for j
  proof
    assume h: "halfOpen edges j v"
    then have lt: "js_lt v (edges ! Suc j)" by (simp add: halfOpen_def)
    then have "edges ! Suc j \<noteq> NaN" by (cases v; cases "edges ! Suc j") auto
    with assms(1) that have "js_le (edges ! Suc j) (last edges)"
      by (intro ascending_le_last) simp_all
    with lt v show False by (auto dest: js_lt_not_le)
  qed
  then have "list_all (\<lambda>j. \<not> halfOpen edges j v) [0..<length edges - 2]"
    using assms(2) by (auto simp: list_all_iff)
  with assms(2,3) show ?thesis
    by (auto simp: countedIn_def)
qed

section \<open>Object literals\<close>

lemma get_Nil: "get [] k = JUndefined"
  by (simp add: get_def)

lemma get_Cons: "get ((k', v) # ps) k = (if k' = k then v else get ps k)"
  by (simp add: get_def)

lemma map_of_assign: "map_of (assign ob kv) = (map_of ob)(fst kv \<mapsto> snd kv)"
  by (simp add: assign_def update_conv')

lemma map_of_foldl_assign: "map_of (foldl assign ob kvs) = map_of ob ++ map_of (rev kvs)"
proof (induction kvs arbitrary: ob)
  case Nil
  then show ?case by simp
next
  case (Cons kv kvs)
  show ?case
    by (rule ext) (simp add: Cons.IH map_of_assign map_add_def split: option.splits)
qed

lemma get_literal:
  "get (literal kvs) k = (case map_of (rev kvs) k of Some v \<Rightarrow> v | None \<Rightarrow> JUndefined)"
  by (simp add: get_def literal_def map_of_foldl_assign)

lemma get_assigns:
  "get (assigns ob kvs) k = (case map_of (rev kvs) k of Some v \<Rightarrow> v | None \<Rightarrow> get ob k)"
  by (simp add: get_def assigns_def map_of_foldl_assign map_add_def split: option.splits)

lemma get_assign: "get (assign ob (k, v)) k' = (if k = k' then v else get ob k')"
  by (simp add: get_def map_of_assign)

lemma get_literal_append:
  "get (literal (fs @ p)) k = (if k \<in> fst ` set p then get (literal p) k else get (literal fs) k)"
proof -
  have "k \<in> fst ` set p \<longleftrightarrow> map_of (rev p) k \<noteq> None"
    by (simp add: map_of_eq_None_iff)
  then show ?thesis
    by (auto simp: get_literal map_add_def split: option.splits)
qed

lemma passthrough_assign:
  "k \<noteq> ''additionalProps'' \<Longrightarrow> passthrough (assign ds (k, v)) = passthrough ds"
  by (simp add: passthrough_def get_assign)

section \<open>The example of the specification, in both files\<close>

lemma example_passthrough: "spread (coalesce (get exampleDataset ''additionalProps'') (JObj [])) = []"
  by (simp add: exampleDataset_def get_def coalesce_def)

lemma example_frequencies:
  "countFrequencies [Fin 0, Fin 5, Fin 10] [Fin 1, Fin 6, Fin 10] = Inr [1, 2]"
  by (simp add: countFrequencies_def binLoop.simps js_ge_def js_le_def js_eq_def numeral_2_eq_2)

lemma example_data_ajayjs:
  "map_sum id (\<lambda>out. get out ''data'') (buildHistogramDataset_ajayjs B exampleDataset c)
     = Inr (exampleBins B sep_ajayjs)"
proof -
  have raw: "rawValues_ajayjs exampleDataset = [Fin 1, Fin 6, Fin 10]"
    by (simp add: rawValues_ajayjs_def exampleDataset_def get_def)
  have edges: "histogramEdges_ajayjs B exampleDataset [Fin 1, Fin 6, Fin 10]
                 = Inr [Fin 0, Fin 5, Fin 10]"
    by (simp add: histogramEdges_ajayjs_def exampleDataset_def get_def explicitEdges_def
        math_min_def math_max_def js_min2_def js_max2_def extendEdges_def js_le_def js_eq_def
        js_gt_def)
  show ?thesis
    by (simp add: buildHistogramDataset_ajayjs_def raw edges example_frequencies get_literal
        example_passthrough exampleBins_def dataArray_def binLabel_def)
qed

lemma example_data_charts:
  "map_sum id (\<lambda>out. get out ''data'') (buildHistogramDataset_charts B exampleDataset c)
     = Inr (exampleBins B sep_charts)"
proof -
  have raw: "rawValues_charts exampleDataset = [Fin 1, Fin 6, Fin 10]"
    by (simp add: rawValues_charts_def exampleDataset_def get_def)
  have edges: "histogramEdges_charts B exampleDataset [Fin 1, Fin 6, Fin 10]
                 = Inr [Fin 0, Fin 5, Fin 10]"
    by (simp add: histogramEdges_charts_def exampleDataset_def get_def explicitEdges_def
        js_le_def js_eq_def)
  show ?thesis
    by (simp add: buildHistogramDataset_charts_def raw edges example_frequencies get_literal
        example_passthrough exampleBins_def dataArray_def binLabel_def)
qed

section \<open>The bins of a histogram dataset\<close>

text \<open>
  Whenever \<open>_buildHistogramDataset\<close> returns for a dataset with at least one value,
  its \<open>data\<close> are the bins the rule gives for the edges it has computed (unless the
  passthrough bag supplies a \<open>data\<close> of its own).
\<close>

lemma dataArray_counted:
  assumes "countFrequencies edges vs = Inr freq"
  shows "JArr (dataArray B sep edges freq) = countedBins B sep edges vs"
  using countFrequencies_length [OF assms] countFrequencies_nth [OF assms]
  by (simp add: dataArray_def countedBins_def)

lemma histogram_data_ajayjs:
  assumes "buildHistogramDataset_ajayjs B ds c = Inr d" and "rawValues_ajayjs ds \<noteq> []"
  shows "\<exists>edges. histogramEdges_ajayjs B ds (rawValues_ajayjs ds) = Inr edges \<and>
           (''data'' \<in> fst ` set (passthrough ds)
            \<or> get d ''data'' = countedBins B sep_ajayjs edges (rawValues_ajayjs ds))"
proof -
  from assms obtain edges freq where
    edges: "histogramEdges_ajayjs B ds (rawValues_ajayjs ds) = Inr edges"
    and freq: "countFrequencies edges (rawValues_ajayjs ds) = Inr freq"
    and d: "d = literal
         ([(''label'', coalesce (get ds ''label'') (JStr ''Histogram'')),
          (''data'', JArr (dataArray B sep_ajayjs edges freq)),
          (''backgroundColor'', coalesce (get ds ''backgroundColor'') c),
          (''borderColor'', coalesce (get ds ''borderColor'') c),
          (''borderWidth'', numberOr (get ds ''borderWidth'') (JNum (Fin 1))),
          (''barPercentage'', JNum (Fin 1)),
          (''categoryPercentage'', JNum (Fin 1))]
          @ passthrough ds)"
    by (auto simp: buildHistogramDataset_ajayjs_def Let_def passthrough_def [symmetric]
        simp del: append.simps split: sum.splits)
  have "get d ''data'' = JArr (dataArray B sep_ajayjs edges freq)"
    if "''data'' \<notin> fst ` set (passthrough ds)"
    using that unfolding d get_literal_append
    by (simp add: get_literal)
  with edges dataArray_counted [OF freq] show ?thesis
    by auto
qed

lemma histogram_data_charts:
  assumes "buildHistogramDataset_charts B ds c = Inr d" and "rawValues_charts ds \<noteq> []"
  shows "\<exists>edges. histogramEdges_charts B ds (rawValues_charts ds) = Inr edges \<and>
           (''data'' \<in> fst ` set (passthrough ds)
            \<or> get d ''data'' = countedBins B sep_charts edges (rawValues_charts ds))"
proof -
  from assms obtain edges freq where
    edges: "histogramEdges_charts B ds (rawValues_charts ds) = Inr edges"
    and freq: "countFrequencies edges (rawValues_charts ds) = Inr freq"
    and d: "d = literal
         ([(''label'', coalesce (get ds ''label'') (JStr ''Histogram'')),
          (''data'', JArr (dataArray B sep_charts edges freq)),
          (''backgroundColor'', coalesce (get ds ''backgroundColor'') c),
          (''borderColor'', coalesce (get ds ''borderColor'') c),
          (''borderWidth'', numberOr (get ds ''borderWidth'') (JNum (Fin 1)))]
          @ passthrough ds)"
    by (auto simp: buildHistogramDataset_charts_def Let_def passthrough_def [symmetric]
        simp del: append.simps split: sum.splits)
  have "get d ''data'' = JArr (dataArray B sep_charts edges freq)"
    if "''data'' \<notin> fst ` set (passthrough ds)"
    using that unfolding d get_literal_append
    by (simp add: get_literal)
  with edges dataArray_counted [OF freq] show ?thesis
    by auto
qed

section \<open>Claims\<close>

text \<open>
  C1. For every histogram dataset, the counting loop (the same in both files) counts
  each value in the first bin \<open>i\<close> with \<open>edges[i] <= v < edges[i+1]\<close>, except that a
  value equal to the final edge, which no half-open bin holds, is counted in the last
  bin: the count of bin \<open>i\<close> is the number of values to which this rule gives bin \<open>i\<close>.
  When the edges ascend, a value equal to the final edge is given the last bin. In
  particular the values \<open>[1, 6, 10]\<close> with the explicit edges \<open>[0, 5, 10]\<close> give, in
  both files, the two bins \<open>0 - 5\<close> with count 1 and \<open>5 - 10\<close> with count 2. The rule
  holds for every value the filter keeps, the finite ones among them. And for every
  dataset with at least one value for which \<open>_buildHistogramDataset\<close> returns, in
  either file, the \<open>data\<close> returned are the bins of this rule for the edges computed
  (unless the passthrough bag supplies a \<open>data\<close> of its own).
\<close>

theorem histogram_counts_first_matching_bin:
  assumes "countFrequencies edges rawValues = Inr freq"
  shows "length freq = length edges - 1
       \<and> (\<forall>i<length freq. freq ! i = length (filter (\<lambda>v. countedIn edges v i) rawValues))
       \<and> (\<forall>v. ascending edges \<and> 2 \<le> length edges \<and> js_eq v (last edges)
              \<longrightarrow> countedIn edges v (length edges - 2))
       \<and> map_sum id (\<lambda>out. get out ''data'') (buildHistogramDataset_ajayjs B exampleDataset c)
           = Inr (exampleBins B sep_ajayjs)
       \<and> map_sum id (\<lambda>out. get out ''data'') (buildHistogramDataset_charts B exampleDataset c)
           = Inr (exampleBins B sep_charts)
       \<and> (buildHistogramDataset_ajayjs B ds c = Inr d \<and> rawValues_ajayjs ds \<noteq> [] \<longrightarrow>
            (\<exists>es. histogramEdges_ajayjs B ds (rawValues_ajayjs ds) = Inr es \<and>
               (''data'' \<in> fst ` set (passthrough ds)
                \<or> get d ''data'' = countedBins B sep_ajayjs es (rawValues_ajayjs ds))))
       \<and> (buildHistogramDataset_charts B ds c = Inr d \<and> rawValues_charts ds \<noteq> [] \<longrightarrow>
            (\<exists>es. histogramEdges_charts B ds (rawValues_charts ds) = Inr es \<and>
               (''data'' \<in> fst ` set (passthrough ds)
                \<or> get d ''data'' = countedBins B sep_charts es (rawValues_charts ds))))"
proof (intro conjI allI impI)
  show "length freq = length edges - 1"
    using assms by (rule countFrequencies_length)
next
  fix i assume "i < length freq"
  with assms show "freq ! i = length (filter (\<lambda>v. countedIn edges v i) rawValues)"
    by (rule countFrequencies_nth)
next
  fix v assume "ascending edges \<and> 2 \<le> length edges \<and> js_eq v (last edges)"
  then show "countedIn edges v (length edges - 2)"
    by (simp add: final_edge_in_last_bin)
next
  show "map_sum id (\<lambda>out. get out ''data'') (buildHistogramDataset_ajayjs B exampleDataset c)
          = Inr (exampleBins B sep_ajayjs)"
    by (rule example_data_ajayjs)
next
  show "map_sum id (\<lambda>out. get out ''data'') (buildHistogramDataset_charts B exampleDataset c)
          = Inr (exampleBins B sep_charts)"
    by (rule example_data_charts)
next
  assume h: "buildHistogramDataset_ajayjs B ds c = Inr d \<and> rawValues_ajayjs ds \<noteq> []"
  show "\<exists>es. histogramEdges_ajayjs B ds (rawValues_ajayjs ds) = Inr es \<and>
               (''data'' \<in> fst ` set (passthrough ds)
                \<or> get d ''data'' = countedBins B sep_ajayjs es (rawValues_ajayjs ds))"
    by (rule histogram_data_ajayjs [OF h [THEN conjunct1] h [THEN conjunct2]])
next
  assume h: "buildHistogramDataset_charts B ds c = Inr d \<and> rawValues_charts ds \<noteq> []"
  show "\<exists>es. histogramEdges_charts B ds (rawValues_charts ds) = Inr es \<and>
               (''data'' \<in> fst ` set (passthrough ds)
                \<or> get d ''data'' = countedBins B sep_charts es (rawValues_charts ds))"
    by (rule histogram_data_charts [OF h [THEN conjunct1] h [THEN conjunct2]])
qed

theorem histogram_counts_first_matching_bin_witness:
  "countFrequencies [Fin 0, Fin 5, Fin 10] [Fin 1, Fin 6, Fin 10] = Inr [1, 2]
   \<and> length (filter (\<lambda>v. countedIn [Fin 0, Fin 5, Fin 10] v 0) [Fin 1, Fin 6, Fin 10]) = 1
   \<and> length (filter (\<lambda>v. countedIn [Fin 0, Fin 5, Fin 10] v 1) [Fin 1, Fin 6, Fin 10]) = 2
   \<and> countedIn [Fin 0, Fin 5, Fin 10] (Fin 10) 1"
proof -
  note inst = histogram_counts_first_matching_bin [OF example_frequencies]
  note counts = inst [THEN conjunct2, THEN conjunct1, rule_format]
  note final = inst [THEN conjunct2, THEN conjunct2, THEN conjunct1, rule_format]
  have "length (filter (\<lambda>v. countedIn [Fin 0, Fin 5, Fin 10] v 0) [Fin 1, Fin 6, Fin 10])
          = [1, 2] ! 0"
    by (rule counts [symmetric]) simp
  then have a: "length (filter (\<lambda>v. countedIn [Fin 0, Fin 5, Fin 10] v 0)
                  [Fin 1, Fin 6, Fin 10]) = 1"
    by (simp only: nth_Cons_0)
  have "length (filter (\<lambda>v. countedIn [Fin 0, Fin 5, Fin 10] v 1) [Fin 1, Fin 6, Fin 10])
          = [1, 2] ! 1"
    by (rule counts [symmetric]) simp
  then have b: "length (filter (\<lambda>v. countedIn [Fin 0, Fin 5, Fin 10] v 1)
                  [Fin 1, Fin 6, Fin 10]) = 2"
    by (simp only: nth_Cons_Suc nth_Cons_0 One_nat_def)
  have "countedIn [Fin 0, Fin 5, Fin 10] (Fin 10) (length [Fin 0, Fin 5, Fin 10] - 2)"
    by (rule final) (simp add: js_le_def js_eq_def)
  then have c: "countedIn [Fin 0, Fin 5, Fin 10] (Fin 10) 1"
    by simp
  show ?thesis
    by (intro conjI example_frequencies a b c)
qed

text \<open>
  C9. For every \<open>n\<close> greater than the size 10 of the built-in table, every theme and
  every index \<open>i < n\<close>, \<open>generatePalette(n, theme)[i]\<close> equals
  \<open>generatePalette(n, theme)[i mod 10]\<close>. The palette is a function of \<open>(n, theme)\<close>
  alone: it has \<open>n\<close> entries and entry \<open>i\<close> is entry \<open>i mod 10\<close> of the ten-colour
  palette of the theme.
\<close>

theorem generatePalette_cycles_mod_10:
  assumes "10 < n" and "i < n"
  shows "generatePalette n theme ! i = generatePalette n theme ! (i mod 10)
       \<and> length (generatePalette n theme) = n
       \<and> generatePalette n theme ! i = generatePalette 10 theme ! (i mod 10)"
proof -
  have len: "length (if theme = ''light'' then lightPalette else darkPalette) = 10"
    by (simp add: lightPalette_def darkPalette_def)
  have lt: "i mod 10 < n" "i mod 10 < 10"
    using assms by simp_all
  show ?thesis
    using assms lt
    by (simp add: generatePalette_def Let_def len del: upt_Suc)
qed

theorem generatePalette_cycles_mod_10_witness:
  "(10::nat) < 12 \<and> (11::nat) < 12
   \<and> generatePalette 12 ''dark'' ! 11 = generatePalette 12 ''dark'' ! (11 mod 10)
   \<and> generatePalette 12 ''dark'' ! 11 = generatePalette 10 ''dark'' ! (11 mod 10)"
proof -
  have a: "(10::nat) < 12" and b: "(11::nat) < 12"
    by simp_all
  from generatePalette_cycles_mod_10 [OF a b, of "''dark''"] a b show ?thesis
    by blast
qed

text \<open>
  C8. For every chart state and every index outside the current dataset range (a
  number that is not both \<open>>= 0\<close> and \<open>< datasets.length\<close>, \<open>NaN\<close> and the infinities
  included), \<open>removeDataset\<close> and \<open>updateData\<close> return the state as it was: the
  dataset sequence is unchanged and no render is requested. Neither operation has a
  branch that raises.
\<close>

theorem out_of_range_index_is_noop:
  assumes "\<not> (js_ge index (Fin 0)
               \<and> js_lt index (Fin (real (length (cfg_datasets (chart_config c))))))"
  shows "removeDataset index c = c \<and> updateData index newData c = c"
proof -
  have "datasetAt (cfg_datasets (chart_config c)) index = None"
  proof (cases index)
    case (Fin x)
    with assms have "x < 0 \<or> real (length (cfg_datasets (chart_config c))) \<le> x"
      by (auto simp: js_ge_def js_le_def js_eq_def)
    then show ?thesis
      unfolding datasetAt_def Fin
      by (auto simp: nat_less_iff floor_less_iff le_floor_iff)
  qed (simp_all add: datasetAt_def)
  with assms show ?thesis
    by (auto simp: removeDataset_def updateData_def Let_def)
qed

theorem out_of_range_index_is_noop_witness:
  "\<not> (js_ge (Fin 2) (Fin 0)
        \<and> js_lt (Fin 2) (Fin (real (length (cfg_datasets (chart_config twoDatasets))))))
   \<and> removeDataset (Fin 2) twoDatasets = twoDatasets
   \<and> updateData (Fin 2) (JArr [JNum (Fin 1)]) twoDatasets = twoDatasets"
proof -
  have out: "\<not> (js_ge (Fin 2) (Fin 0)
        \<and> js_lt (Fin 2) (Fin (real (length (cfg_datasets (chart_config twoDatasets))))))"
    by (simp add: twoDatasets_def)
  from out out_of_range_index_is_noop [OF out, of "JArr [JNum (Fin 1)]"] show ?thesis
    by (intro conjI) simp_all
qed

section \<open>Evaluation of type tags\<close>

lemma lower_bar: "toLowerCase ''bar'' = ''bar''"
  by (simp add: toLowerCase_def lowerChar_def)

lemma lower_heatmap: "toLowerCase ''heatmap'' = ''heatmap''"
  by (simp add: toLowerCase_def lowerChar_def)

text \<open>
  C7, in \<^verbatim>\<open>src/AJAYJS/charts/charts.js\<close>: a non-empty explicit palette is the palette
  used, and dataset \<open>i\<close> receives \<open>palette[i mod length]\<close>, whatever the number of
  datasets.
\<close>

lemma explicit_palette_cycles_ajayjs:
  assumes "cfg_palette cfg \<noteq> []"
  shows "choosePalette cfg = cfg_palette cfg
       \<and> datasetColor_ajayjs (choosePalette cfg) i
           = cfg_palette cfg ! (i mod length (cfg_palette cfg))"
  using assms by (simp add: choosePalette_def datasetColor_ajayjs_def elemAt_def)

lemma explicit_palette_datasets_ajayjs:
  assumes "cfg_palette cfg \<noteq> []"
  shows "normalizedDatasets_ajayjs B cfg =
           collect (map (\<lambda>(i, ds).
                      normalizeDataset_ajayjs B (cfg_theme cfg) ds
                        (cfg_palette cfg ! (i mod length (cfg_palette cfg)))
                        (toLowerCase (cfg_type cfg)))
                    (enumerate 0 (cfg_datasets cfg)))"
  using assms
  by (simp add: normalizedDatasets_ajayjs_def choosePalette_def datasetColor_ajayjs_def
      elemAt_def Let_def)

text \<open>
  C7. In \<^verbatim>\<open>src/charts/charts.js\<close> dataset \<open>i\<close> receives \<open>palette[i]\<close>: with an explicit
  palette of one colour and two datasets the second dataset receives \<open>undefined\<close>, where
  \<^verbatim>\<open>src/AJAYJS/charts/charts.js\<close> gives it the palette's colour again.
\<close>

theorem explicit_palette_not_cycled_charts:
  "map_sum id (map (\<lambda>d. get d ''backgroundColor'')) (normalizedDatasets_charts exactEngine shortPalette)
     = Inr [JStr ''#111111'', JUndefined]
   \<and> map_sum id (map (\<lambda>d. get d ''backgroundColor'')) (normalizedDatasets_ajayjs exactEngine shortPalette)
     = Inr [JStr ''#111111'', JStr ''#111111'']"
proof -
  have pal: "choosePalette shortPalette = [JStr ''#111111'']"
    by (simp add: choosePalette_def shortPalette_def)
  have ds: "cfg_datasets shortPalette = [[(''label'', JStr ''a'')], [(''label'', JStr ''b'')]]"
    by (simp add: shortPalette_def twoDatasets_def)
  have ty: "toLowerCase (cfg_type shortPalette) = ''bar''"
    by (simp add: shortPalette_def twoDatasets_def lower_bar)
  have pt: "passthrough [(''label'', v)] = []" for v
    by (simp add: passthrough_def get_def coalesce_def)
  have one_c: "get (normalizeDataset_charts [(''label'', v)] c ''bar'') ''backgroundColor''
                 = coalesce JUndefined c" for v c
    by (simp add: normalizeDataset_charts_def base_charts_def pt get_literal get_Nil get_Cons)
  have charts: "map_sum id (map (\<lambda>d. get d ''backgroundColor''))
                  (normalizedDatasets_charts exactEngine shortPalette)
                = Inr [JStr ''#111111'', JUndefined]"
    by (simp add: normalizedDatasets_charts_def pal ds ty renderDataset_charts_def
        prepareDataset_charts_def one_c datasetColor_charts_def elemAt_def coalesce_def Let_def)
  have one_a: "normalizeDataset_ajayjs B th [(''label'', v)] c ''bar''
                 = Inr (base_ajayjs [(''label'', v)] c)" for v c B th
    by (simp add: normalizeDataset_ajayjs_def)
  have bg_a: "get (base_ajayjs [(''label'', v)] c) ''backgroundColor'' = coalesce JUndefined c"
    for v c
    by (simp add: base_ajayjs_def pt get_literal get_Nil get_Cons)
  have ajayjs: "map_sum id (map (\<lambda>d. get d ''backgroundColor''))
                  (normalizedDatasets_ajayjs exactEngine shortPalette)
                = Inr [JStr ''#111111'', JStr ''#111111'']"
    by (simp add: normalizedDatasets_ajayjs_def pal ds ty one_a bg_a datasetColor_ajayjs_def
        elemAt_def coalesce_def Let_def)
  from charts ajayjs show ?thesis ..
qed

text \<open>
  C6, in \<^verbatim>\<open>src/AJAYJS/charts/charts.js\<close>: when the requested type resolves to an
  extension type that the renderer does not know when \<open>_buildAndRender\<close> runs, the
  effective type is \<open>bar\<close>; the effective type is never an extension type the
  renderer does not know.
\<close>

lemma unregistered_extension_falls_back_ajayjs:
  "aliasType_ajayjs t \<in> set extensionTypes \<Longrightarrow> \<not> pluginRegistered R (aliasType_ajayjs t)
     \<Longrightarrow> effectiveType_ajayjs R t = ''bar''"
  by (simp add: effectiveType_ajayjs_def)

lemma effective_extension_is_registered_ajayjs:
  "effectiveType_ajayjs R t \<in> set extensionTypes
     \<Longrightarrow> pluginRegistered R (effectiveType_ajayjs R t)"
proof -
  have bar: "''bar'' \<notin> set extensionTypes"
    by (simp add: extensionTypes_def)
  assume "effectiveType_ajayjs R t \<in> set extensionTypes"
  with bar show ?thesis
    by (cases "aliasType_ajayjs t \<in> set extensionTypes";
        cases "pluginRegistered R (aliasType_ajayjs t)")
       (simp_all add: effectiveType_ajayjs_def)
qed

text \<open>
  C6. In \<^verbatim>\<open>src/charts/charts.js\<close> the effective type is a fixed alias of the requested
  type and the renderer is never asked: \<open>heatmap\<close> gives \<open>matrix\<close> whether or not a
  \<open>matrix\<close> controller is registered, where \<^verbatim>\<open>src/AJAYJS/charts/charts.js\<close> falls back to
  \<open>bar\<close> on a renderer that holds the built-in controllers only.
\<close>

theorem extension_type_not_checked_charts:
  "effectiveType_charts ''heatmap'' = ''matrix''
   \<and> effectiveType_ajayjs coreRenderer ''heatmap'' = ''bar''"
  by (simp add: effectiveType_charts_def effectiveType_ajayjs_def aliasType_ajayjs_def
      lower_heatmap extensionTypes_def pluginRegistered_def coreRenderer_def)

section \<open>The area alias and the passthrough bag\<close>

text \<open>
  What each file does with the fill of an area dataset. In
  \<^verbatim>\<open>src/AJAYJS/charts/charts.js\<close> it is the caller's \<open>ds.fill\<close> when that is a boolean
  and \<open>true\<close> otherwise. In \<^verbatim>\<open>src/charts/charts.js\<close> \<open>ds.fill\<close> is set to \<open>true\<close>
  before the dataset is normalized, and the normalized fill is \<open>true\<close> unless the
  passthrough bag has a \<open>fill\<close> of its own.
\<close>

lemma area_fill_ajayjs:
  "map_sum id (\<lambda>d. get d ''fill'') (normalizeDataset_ajayjs B th ds c ''area'')
     = Inr (booleanOr (get ds ''fill'') (JBool True))"
  by (simp add: normalizeDataset_ajayjs_def get_assigns)

lemma area_fill_charts:
  "map_sum id (\<lambda>d. get d ''fill'') (renderDataset_charts B ''area'' c ds)
     = Inr (if ''fill'' \<in> fst ` set (passthrough ds) then get (literal (passthrough ds)) ''fill''
            else JBool True)"
proof -
  have prep: "prepareDataset_charts ''area'' c ds = assign ds (''fill'', JBool True)"
    by (simp add: prepareDataset_charts_def)
  have norm: "normalizeDataset_charts ds' c ''area'' = base_charts ds' c" for ds'
    by (simp add: normalizeDataset_charts_def)
  have fill: "get (base_charts ds' c) ''fill'' =
      (if ''fill'' \<in> fst ` set (passthrough ds') then get (literal (passthrough ds')) ''fill''
       else booleanOr (get ds' ''fill'') (JBool False))" for ds'
    unfolding base_charts_def get_literal_append
    by (simp add: get_literal)
  show ?thesis
    by (simp add: renderDataset_charts_def prep norm fill passthrough_assign get_assign
        booleanOr_def)
qed

text \<open>
  C4. The claim: every dataset rendered under chart type \<open>area\<close> is normalized with
  \<open>fill = true\<close>, also when the caller's dataset said \<open>fill: false\<close>. It fails on
  \<^verbatim>\<open>src/AJAYJS/charts/charts.js\<close>, whose area branch (line 289) takes the caller's
  \<open>ds.fill\<close> when that is a boolean: the area dataset \<open>{fill: false}\<close> is normalized
  with \<open>fill = false\<close>. On the same dataset \<^verbatim>\<open>src/charts/charts.js\<close> (lines 181-184,
  under the comment \<^verbatim>\<open>If area, enforce fill\<close>) gives \<open>fill = true\<close>.
\<close>

theorem area_fill_not_forced_ajayjs:
  "map_sum id (\<lambda>d. get d ''fill'')
     (normalizeDataset_ajayjs exactEngine ''dark'' [(''fill'', JBool False)] (JStr ''#ff4d4d'') ''area'')
   = Inr (JBool False)
   \<and> map_sum id (\<lambda>d. get d ''fill'')
     (renderDataset_charts exactEngine ''area'' (JStr ''#ff4d4d'') [(''fill'', JBool False)])
   = Inr (JBool True)"
proof -
  have no_bag: "passthrough [(''fill'', JBool False)] = []"
    by (simp add: passthrough_def get_Cons get_Nil coalesce_def)
  show ?thesis
    by (simp add: area_fill_ajayjs area_fill_charts no_bag get_Cons booleanOr_def)
qed

text \<open>
  C5, where the passthrough bag does win. In \<^verbatim>\<open>src/charts/charts.js\<close>, for every type,
  \<open>_normalizeDataset\<close> gives every key of the bag the bag's value. In
  \<^verbatim>\<open>src/AJAYJS/charts/charts.js\<close> it does so for the types whose branch returns a
  literal or \<open>base\<close> untouched. In both files a histogram with at least one value
  does so too.
\<close>

lemma passthrough_wins_charts:
  "k \<in> fst ` set (passthrough ds) \<Longrightarrow>
   get (normalizeDataset_charts ds c t) k = get (literal (passthrough ds)) k"
  by (simp add: normalizeDataset_charts_def base_charts_def get_literal_append Let_def
      del: append.simps)

lemma passthrough_wins_literal_branches_ajayjs:
  "k \<in> fst ` set (passthrough ds) \<Longrightarrow> t \<notin> set assigningTypes \<Longrightarrow> t \<noteq> ''histogram'' \<Longrightarrow>
   map_sum id (\<lambda>d. get d k) (normalizeDataset_ajayjs B th ds c t)
     = Inr (get (literal (passthrough ds)) k)"
  by (simp add: normalizeDataset_ajayjs_def base_ajayjs_def get_literal_append Let_def
      assigningTypes_def del: append.simps)

lemma passthrough_wins_bins_ajayjs:
  assumes "k \<in> fst ` set (passthrough ds)" and "rawValues_ajayjs ds \<noteq> []"
    and "buildHistogramDataset_ajayjs B ds c = Inr d"
  shows "get d k = get (literal (passthrough ds)) k"
proof -
  from assms(2,3) obtain fs where "d = literal (fs @ passthrough ds)"
    by (auto simp: buildHistogramDataset_ajayjs_def Let_def passthrough_def [symmetric]
        simp del: append.simps split: sum.splits)
  with assms(1) show ?thesis
    by (simp add: get_literal_append)
qed

lemma passthrough_wins_bins_charts:
  assumes "k \<in> fst ` set (passthrough ds)" and "rawValues_charts ds \<noteq> []"
    and "buildHistogramDataset_charts B ds c = Inr d"
  shows "get d k = get (literal (passthrough ds)) k"
proof -
  from assms(2,3) obtain fs where "d = literal (fs @ passthrough ds)"
    by (auto simp: buildHistogramDataset_charts_def Let_def passthrough_def [symmetric]
        simp del: append.simps split: sum.splits)
  with assms(1) show ?thesis
    by (simp add: get_literal_append)
qed

lemma line_passthrough: "passthrough lineWithPassthrough = [(''fill'', JBool True)]"
  by (simp add: passthrough_def lineWithPassthrough_def get_Cons coalesce_def)

text \<open>
  C5. In \<^verbatim>\<open>src/AJAYJS/charts/charts.js\<close> the branches for line, scatter, radar, area,
  pie, doughnut, polararea and bubble assign their fields to \<open>base\<close> after the
  passthrough bag was spliced into it: a line dataset whose bag holds \<open>fill: true\<close> is
  normalized with \<open>fill = false\<close>, where \<^verbatim>\<open>src/charts/charts.js\<close> gives \<open>true\<close>. And in
  both files a histogram dataset without numeric values returns early, without the
  bag: its \<open>barThickness\<close> is lost.
\<close>

theorem passthrough_overridden_after_splice:
  "map_sum id (\<lambda>d. get d ''fill'')
     (normalizeDataset_ajayjs exactEngine ''dark'' lineWithPassthrough (JStr ''#ff4d4d'') ''line'')
     = Inr (JBool False)
   \<and> get (normalizeDataset_charts lineWithPassthrough (JStr ''#ff4d4d'') ''line'') ''fill''
     = JBool True
   \<and> map_sum id (\<lambda>d. get d ''barThickness'')
     (buildHistogramDataset_ajayjs exactEngine emptyWithPassthrough (JStr ''#ff4d4d''))
     = Inr JUndefined
   \<and> map_sum id (\<lambda>d. get d ''barThickness'')
     (buildHistogramDataset_charts exactEngine emptyWithPassthrough (JStr ''#ff4d4d''))
     = Inr JUndefined"
proof -
  have a: "map_sum id (\<lambda>d. get d ''fill'')
     (normalizeDataset_ajayjs exactEngine ''dark'' lineWithPassthrough (JStr ''#ff4d4d'') ''line'')
     = Inr (booleanOr (get lineWithPassthrough ''fill'') (JBool False))"
    by (simp add: normalizeDataset_ajayjs_def get_assigns)
  then have a': "map_sum id (\<lambda>d. get d ''fill'')
     (normalizeDataset_ajayjs exactEngine ''dark'' lineWithPassthrough (JStr ''#ff4d4d'') ''line'')
     = Inr (JBool False)"
    by (simp add: lineWithPassthrough_def get_Cons get_Nil booleanOr_def)
  have b: "get (normalizeDataset_charts lineWithPassthrough (JStr ''#ff4d4d'') ''line'') ''fill''
     = JBool True"
    by (simp add: passthrough_wins_charts line_passthrough get_literal)
  have c: "map_sum id (\<lambda>d. get d ''barThickness'')
     (buildHistogramDataset_ajayjs exactEngine emptyWithPassthrough (JStr ''#ff4d4d''))
     = Inr JUndefined"
    by (simp add: buildHistogramDataset_ajayjs_def rawValues_ajayjs_def
        emptyWithPassthrough_def get_Cons emptyHistogram_def get_literal)
  have d: "map_sum id (\<lambda>d. get d ''barThickness'')
     (buildHistogramDataset_charts exactEngine emptyWithPassthrough (JStr ''#ff4d4d''))
     = Inr JUndefined"
    by (simp add: buildHistogramDataset_charts_def rawValues_charts_def
        emptyWithPassthrough_def get_Cons emptyHistogram_def get_literal)
  from a' b c d show ?thesis
    by (intro conjI)
qed

section \<open>Deep merge\<close>

lemma plain_is_object:
  "sv \<noteq> JNull \<Longrightarrow> typeofObject sv \<Longrightarrow> \<not> isArray sv \<Longrightarrow> \<exists>ps. sv = JObj ps"
  by (cases sv) auto

text \<open>
  When the merge returns, every key holds the value the specification describes: the
  default's value where the override has no such key, and otherwise the recursive merge
  or the override's value as it is.
\<close>

lemma mergeKeys_lookup:
  "mergeKeys target out (JObj rest) = Inr res \<Longrightarrow> distinct (map fst rest) \<Longrightarrow>
   get res k = (case map_of rest k of None \<Rightarrow> get out k | Some sv \<Rightarrow> mergedValue target k sv)"
proof (induction rest arbitrary: out)
  case Nil
  then show ?case by simp
next
  case (Cons kv rest)
  obtain key sv where kv: "kv = (key, sv)" by (cases kv)
  have fresh: "map_of rest key = None"
    using Cons.prems(2) by (simp add: kv map_of_eq_None_iff)
  have dist: "distinct (map fst rest)" using Cons.prems(2) by simp
  show ?case
  proof (cases "recurses target key sv")
    case True
    then obtain sps where sv: "sv = JObj sps"
      by (auto simp: recurses_def dest: plain_is_object)
    from True Cons.prems(1) obtain m where
      m: "mergeKeys (member target key) (spread (member target key)) sv = Inr m"
      and rest: "mergeKeys target (assign out (key, JObj m)) (JObj rest) = Inr res"
      by (auto simp: kv recurses_def split: sum.splits if_splits)
    have dm: "deepMerge (member target key) sv = Inr m"
      using m by (simp add: deepMerge_def sv)
    from Cons.IH [OF rest dist] True fresh dm show ?thesis
      by (auto simp: kv get_assign mergedValue_def split: option.splits)
  next
    case False
    with Cons.prems(1) have rest: "mergeKeys target (assign out (key, sv)) (JObj rest) = Inr res"
      by (auto simp: kv recurses_def split: sum.splits if_splits)
    from Cons.IH [OF rest dist] False fresh show ?thesis
      by (auto simp: kv get_assign mergedValue_def split: option.splits)
  qed
qed

lemma deepMerge_lookup:
  assumes "deepMerge (JObj tps) (JObj sps) = Inr res" and "distinct (map fst sps)"
  shows "get res k =
           (case map_of sps k of None \<Rightarrow> get tps k | Some sv \<Rightarrow> mergedValue (JObj tps) k sv)"
  using assms by (simp add: deepMerge_def mergeKeys_lookup)

text \<open>On a default tree without \<open>null\<close> the merge always returns.\<close>

lemma nullFree_member:
  assumes nf: "nullFree (JObj ps)"
    and ty: "typeofObject (member (JObj ps) k)" "\<not> isArray (member (JObj ps) k)"
    and has: "hasKey (JObj ps) k = Inr True"
  shows "(\<exists>qs. member (JObj ps) k = JObj qs) \<and> nullFree (member (JObj ps) k)"
proof -
  from has have "map_of ps k \<noteq> None"
    by (simp add: map_of_eq_None_iff)
  then obtain v where v: "map_of ps k = Some v"
    by auto
  then have "(k, v) \<in> set ps" by (rule map_of_SomeD)
  with nf have "v \<noteq> JNull" "nullFree v" by (auto simp: list_all_iff)
  moreover have "member (JObj ps) k = v" using v by (simp add: get_def)
  ultimately show ?thesis using ty by (cases v) auto
qed

lemma mergeKeys_total:
  "nullFree target \<Longrightarrow> \<exists>tps. target = JObj tps
     \<Longrightarrow> \<exists>res. mergeKeys target out source = Inr res"
proof (induction target out source rule: mergeKeys.induct)
  case (2 target out key sv rest)
  from "2.prems"(2) obtain present where has: "hasKey target key = Inr present"
    by auto
  show ?case
  proof (cases "sv \<noteq> JNull \<and> typeofObject sv \<and> \<not> isArray sv")
    case False
    with "2.IH"(4) "2.prems" show ?thesis by auto
  next
    case plain: True
    show ?thesis
    proof (cases "present \<and> typeofObject (member target key) \<and> \<not> isArray (member target key)")
      case False
      with "2.IH"(3) [OF plain has] "2.prems" plain has show ?thesis by auto
    next
      case True
      with has have hk: "hasKey target key = Inr True" by simp
      from "2.prems"(2) obtain tps where tps: "target = JObj tps" by auto
      from nullFree_member [of tps key] "2.prems"(1) hk True
      have sub: "\<exists>ps. member target key = JObj ps" "nullFree (member target key)"
        by (auto simp: tps)
      from "2.IH"(1) [OF plain has True sub(2) sub(1)] obtain merged where
        merged: "mergeKeys (member target key) (spread (member target key)) sv = Inr merged"
        by auto
      from "2.IH"(2) [OF plain has True merged "2.prems"] obtain res where
        "mergeKeys target (assign out (key, JObj merged)) (JObj rest) = Inr res"
        by auto
      with plain has True merged show ?thesis by simp
    qed
  qed
qed simp_all

lemma deepMerge_total:
  "nullFree (JObj tps) \<Longrightarrow> \<exists>res. deepMerge (JObj tps) source = Inr res"
  unfolding deepMerge_def by (rule mergeKeys_total) auto

text \<open>
  C2. The two examples of the claim hold: merging the default \<open>{a: [1, 2]}\<close> with the
  override \<open>{a: [9]}\<close> gives \<open>{a: [9]}\<close>, and merging an empty override returns the
  default tree. But the code tests \<open>source[key] !== null\<close> and not
  \<open>target[key] !== null\<close>: with the default \<open>{a: null}\<close> and the override
  \<open>{a: {b: {}}}\<close> it calls itself on \<open>null\<close>, where \<open>'b' in null\<close> raises a
  \<open>TypeError\<close>, instead of letting the override's value replace the default's.
\<close>

theorem deepMerge_null_default_raises:
  "deepMerge (JObj [(''a'', JNull)]) (JObj [(''a'', JObj [(''b'', JObj [])])]) = Inl TypeError
   \<and> deepMerge (JObj [(''a'', JArr [JNum (Fin 1), JNum (Fin 2)])])
               (JObj [(''a'', JArr [JNum (Fin 9)])])
       = Inr [(''a'', JArr [JNum (Fin 9)])]
   \<and> deepMerge (JObj tps) (JObj []) = Inr tps"
  by (simp add: deepMerge_def get_Cons assign_def)

section \<open>Single-valued histogram input\<close>

text \<open>
  With all values equal to a finite \<open>c\<close> the minimum and the maximum are \<open>c\<close>, the bin
  width is \<open>(c - c) / k = 0\<close> and every edge is \<open>c + i * 0 = c\<close>: these results are
  exact, so the rounding only has to leave the doubles \<open>0\<close> and \<open>c\<close> as they are.
\<close>

lemma math_min_replicate: "math_min (replicate (Suc m) (Fin c)) = Fin c"
proof -
  have "foldl js_min2 (Fin c) (replicate n (Fin c)) = Fin c" for n
    by (induction n) (simp_all add: js_min2_def)
  then show ?thesis
    by (simp add: math_min_def js_min2_def)
qed

lemma math_max_replicate: "math_max (replicate (Suc m) (Fin c)) = Fin c"
proof -
  have "foldl js_max2 (Fin c) (replicate n (Fin c)) = Fin c" for n
    by (induction n) (simp_all add: js_max2_def)
  then show ?thesis
    by (simp add: math_max_def js_max2_def)
qed

lemma fillEdges_constant:
  "\<forall>j. js_add B minVal (js_mul B (Fin (real j)) binWidth) = e \<Longrightarrow>
   kk = real k \<Longrightarrow> i \<le> Suc k \<Longrightarrow>
   fillEdges B minVal binWidth kk i acc = acc @ replicate (Suc k - i) e"
proof (induction B minVal binWidth kk i acc rule: fillEdges.induct)
  case (1 B minVal binWidth kk i edges)
  show ?case
  proof (cases "real i \<le> kk")
    case True
    with "1.prems" have "i \<le> k" by simp
    then have rep: "replicate (Suc k - i) e = e # replicate (Suc k - Suc i) e"
      by (simp add: Suc_diff_le)
    from True "1.prems" \<open>i \<le> k\<close>
    have "fillEdges B minVal binWidth kk (Suc i)
            (edges @ [js_add B minVal (js_mul B (Fin (real i)) binWidth)])
          = (edges @ [js_add B minVal (js_mul B (Fin (real i)) binWidth)])
              @ replicate (Suc k - Suc i) e"
      by (intro "1.IH") simp_all
    with True "1.prems"(1) show ?thesis
      by (subst fillEdges.simps) (simp add: rep)
  next
    case False
    with "1.prems" have "i = Suc k" by simp
    with False show ?thesis
      by (subst fillEdges.simps) simp
  qed
qed


lemma degenerate_width:
  assumes "roundNum B 0 = Fin 0" and "0 < k"
  shows "js_div B (js_sub B (Fin c) (Fin c)) (Fin (real k)) = Fin 0"
  using assms by (simp add: js_sub_def)

lemma degenerate_edge:
  assumes "roundNum B 0 = Fin 0" and "roundNum B c = Fin c"
  shows "js_add B (Fin c) (js_mul B (Fin (real j)) (Fin 0)) = Fin c"
  using assms by simp

lemma degenerate_pushEdges:
  assumes "roundNum B 0 = Fin 0" and "roundNum B c = Fin c"
  shows "pushEdges B (Fin c) (Fin 0) (Fin (real k)) = Inr (replicate (Suc k) (Fin c))"
proof -
  have "\<forall>j. js_add B (Fin c) (js_mul B (Fin (real j)) (Fin 0)) = Fin c"
    using assms by (simp add: degenerate_edge)
  then have "fillEdges B (Fin c) (Fin 0) (real k) 0 [] = [] @ replicate (Suc k - 0) (Fin c)"
    by (rule fillEdges_constant) simp_all
  then show ?thesis
    by (simp add: pushEdges_def)
qed

lemma degenerate_countedIn:
  assumes "0 < k"
  shows "countedIn (replicate (Suc k) (Fin c)) (Fin c) i = (Suc i = k)"
proof -
  have no: "\<not> halfOpen (replicate (Suc k) (Fin c)) j (Fin c)" if "j < k" for j
    using that by (simp add: halfOpen_def nth_Cons')
  have all: "list_all (\<lambda>j. \<not> halfOpen (replicate (Suc k) (Fin c)) j (Fin c)) [0..<i]" if "i < k"
    using that no by (auto simp: list_all_iff simp del: replicate_Suc)
  show ?thesis
  proof (cases "i < k")
    case True
    with all no [OF True] show ?thesis
      by (auto simp: countedIn_def js_eq_def simp del: replicate_Suc)
  next
    case False
    then show ?thesis by (auto simp: countedIn_def)
  qed
qed

lemma degenerate_counts:
  assumes "0 < k"
  shows "countFrequencies (replicate (Suc k) (Fin c)) (replicate n (Fin c))
           = Inr (replicate (k - 1) 0 @ [n])"
proof -
  obtain freq where freq:
    "countFrequencies (replicate (Suc k) (Fin c)) (replicate n (Fin c)) = Inr freq"
    by (auto simp: countFrequencies_def)
  have len: "length freq = k"
    using countFrequencies_length [OF freq] by simp
  have nth: "freq ! i = (if Suc i = k then n else 0)" if "i < k" for i
    using countFrequencies_nth [OF freq, of i] that len
    by (simp add: degenerate_countedIn [OF assms] del: replicate_Suc)
  have "freq = replicate (k - 1) 0 @ [n]"
  proof (rule nth_equalityI)
    show "length freq = length (replicate (k - 1) 0 @ [n])"
      using len assms by simp
  next
    fix i assume "i < length freq"
    with len have i: "i < k" by simp
    then show "freq ! i = (replicate (k - 1) 0 @ [n]) ! i"
      by (cases "Suc i = k") (auto simp: nth nth_append)
  qed
  with freq show ?thesis by simp
qed

lemma degenerate_dataArray:
  assumes "0 < k"
  shows "JArr (dataArray B sep (replicate (Suc k) (Fin c)) (replicate (k - 1) 0 @ [n]))
           = degenerateBins B sep c k n"
  using assms
  by (auto simp: dataArray_def degenerateBins_def binLabel_def nth_append nth_Cons'
      simp del: replicate_Suc)


lemma degenerate_ajayjs:
  assumes raw: "rawValues_ajayjs ds = replicate (Suc m) (Fin c)"
    and bins: "binCount_ajayjs ds = Fin (real k)" "0 < k"
    and noEdges: "explicitEdges ds = None"
    and rnd: "roundNum B 0 = Fin 0" "roundNum B c = Fin c"
  shows "histogramEdges_ajayjs B ds (rawValues_ajayjs ds) = Inr (replicate (Suc k) (Fin c))"
    and "\<exists>d. buildHistogramDataset_ajayjs B ds color = Inr d \<and>
           (''data'' \<in> fst ` set (passthrough ds)
            \<or> get d ''data'' = degenerateBins B sep_ajayjs c k (Suc m))"
proof -
  have clamp: "clampLast (Fin c) (replicate (Suc k) (Fin c)) = replicate (Suc k) (Fin c)"
    by (simp add: clampLast_def del: replicate_Suc)
  show edges: "histogramEdges_ajayjs B ds (rawValues_ajayjs ds) = Inr (replicate (Suc k) (Fin c))"
    unfolding histogramEdges_ajayjs_def raw math_min_replicate math_max_replicate noEdges bins
      Let_def degenerate_width [OF rnd(1) bins(2)] degenerate_pushEdges [OF rnd]
    by (simp add: clamp del: replicate_Suc)
  define fields where "fields =
     [(''label'', coalesce (get ds ''label'') (JStr ''Histogram'')),
      (''data'', JArr (dataArray B sep_ajayjs (replicate (Suc k) (Fin c))
                         (replicate (k - 1) 0 @ [Suc m]))),
      (''backgroundColor'', coalesce (get ds ''backgroundColor'') color),
      (''borderColor'', coalesce (get ds ''borderColor'') color),
      (''borderWidth'', numberOr (get ds ''borderWidth'') (JNum (Fin 1))),
      (''barPercentage'', JNum (Fin 1)),
      (''categoryPercentage'', JNum (Fin 1))]"
  have built: "buildHistogramDataset_ajayjs B ds color = Inr (literal (fields @ passthrough ds))"
    unfolding buildHistogramDataset_ajayjs_def Let_def edges
    unfolding raw fields_def passthrough_def
    by (simp add: degenerate_counts [OF bins(2)] del: replicate_Suc)
  have "get (literal fields) ''data''
          = JArr (dataArray B sep_ajayjs (replicate (Suc k) (Fin c)) (replicate (k - 1) 0 @ [Suc m]))"
    by (simp add: fields_def get_literal del: replicate_Suc)
  then have "get (literal (fields @ passthrough ds)) ''data''
               = degenerateBins B sep_ajayjs c k (Suc m)"
    if "''data'' \<notin> fst ` set (passthrough ds)"
    using that by (simp only: get_literal_append if_False degenerate_dataArray [OF bins(2)])
  with built show "\<exists>d. buildHistogramDataset_ajayjs B ds color = Inr d \<and>
           (''data'' \<in> fst ` set (passthrough ds)
            \<or> get d ''data'' = degenerateBins B sep_ajayjs c k (Suc m))"
    by auto
qed

lemma degenerate_charts:
  assumes raw: "rawValues_charts ds = replicate (Suc m) (Fin c)"
    and bins: "binCount_charts ds = Fin (real k)" "0 < k"
    and noEdges: "explicitEdges ds = None"
    and rnd: "roundNum B 0 = Fin 0" "roundNum B c = Fin c"
  shows "histogramEdges_charts B ds (rawValues_charts ds) = Inr (replicate (Suc k) (Fin c))"
    and "\<exists>d. buildHistogramDataset_charts B ds color = Inr d \<and>
           (''data'' \<in> fst ` set (passthrough ds)
            \<or> get d ''data'' = degenerateBins B sep_charts c k (Suc m))"
proof -
  show edges: "histogramEdges_charts B ds (rawValues_charts ds) = Inr (replicate (Suc k) (Fin c))"
    unfolding histogramEdges_charts_def raw math_min_replicate math_max_replicate noEdges bins
      Let_def degenerate_width [OF rnd(1) bins(2)] degenerate_pushEdges [OF rnd]
    by (simp del: replicate_Suc)
  define fields where "fields =
     [(''label'', coalesce (get ds ''label'') (JStr ''Histogram'')),
      (''data'', JArr (dataArray B sep_charts (replicate (Suc k) (Fin c))
                         (replicate (k - 1) 0 @ [Suc m]))),
      (''backgroundColor'', coalesce (get ds ''backgroundColor'') color),
      (''borderColor'', coalesce (get ds ''borderColor'') color),
      (''borderWidth'', numberOr (get ds ''borderWidth'') (JNum (Fin 1)))]"
  have built: "buildHistogramDataset_charts B ds color = Inr (literal (fields @ passthrough ds))"
    unfolding buildHistogramDataset_charts_def Let_def edges
    unfolding raw fields_def passthrough_def
    by (simp add: degenerate_counts [OF bins(2)] del: replicate_Suc)
  have "get (literal fields) ''data''
          = JArr (dataArray B sep_charts (replicate (Suc k) (Fin c)) (replicate (k - 1) 0 @ [Suc m]))"
    by (simp add: fields_def get_literal del: replicate_Suc)
  then have "get (literal (fields @ passthrough ds)) ''data''
               = degenerateBins B sep_charts c k (Suc m)"
    if "''data'' \<notin> fst ` set (passthrough ds)"
    using that by (simp only: get_literal_append if_False degenerate_dataArray [OF bins(2)])
  with built show "\<exists>d. buildHistogramDataset_charts B ds color = Inr d \<and>
           (''data'' \<in> fst ` set (passthrough ds)
            \<or> get d ''data'' = degenerateBins B sep_charts c k (Suc m))"
    by auto
qed


text \<open>
  C10. For every non-empty single-valued histogram input (all values the filter keeps
  are one finite number \<open>c\<close>), with no explicit bin edges and a bin count \<open>k\<close> (a
  positive integer: \<open>ds.bins\<close>, or 10 by default), both files return a value: the
  \<open>k + 1\<close> edges all equal \<open>c\<close>, every value is counted in the last of the \<open>k\<close> bins
  and the other counts are zero, so that the counts add up to the number of values;
  the dataset returned holds these \<open>k\<close> zero-width bins as its \<open>data\<close> (unless the
  passthrough bag supplies a \<open>data\<close> of its own).
\<close>

theorem single_valued_histogram_fills_last_bin:
  assumes "explicitEdges ds = None" and "0 < k"
    and "roundNum B 0 = Fin 0" and "roundNum B c = Fin c"
  shows
    "(rawValues_ajayjs ds = replicate (Suc m) (Fin c) \<and> binCount_ajayjs ds = Fin (real k) \<longrightarrow>
        histogramEdges_ajayjs B ds (rawValues_ajayjs ds) = Inr (replicate (Suc k) (Fin c))
      \<and> countFrequencies (replicate (Suc k) (Fin c)) (rawValues_ajayjs ds)
          = Inr (replicate (k - 1) 0 @ [length (rawValues_ajayjs ds)])
      \<and> (\<exists>d. buildHistogramDataset_ajayjs B ds color = Inr d
             \<and> (''data'' \<in> fst ` set (passthrough ds)
                \<or> get d ''data'' = degenerateBins B sep_ajayjs c k (length (rawValues_ajayjs ds)))))
   \<and> (rawValues_charts ds = replicate (Suc m) (Fin c) \<and> binCount_charts ds = Fin (real k) \<longrightarrow>
        histogramEdges_charts B ds (rawValues_charts ds) = Inr (replicate (Suc k) (Fin c))
      \<and> countFrequencies (replicate (Suc k) (Fin c)) (rawValues_charts ds)
          = Inr (replicate (k - 1) 0 @ [length (rawValues_charts ds)])
      \<and> (\<exists>d. buildHistogramDataset_charts B ds color = Inr d
             \<and> (''data'' \<in> fst ` set (passthrough ds)
                \<or> get d ''data'' = degenerateBins B sep_charts c k (length (rawValues_charts ds)))))"
proof (intro conjI impI)
  assume h: "rawValues_ajayjs ds = replicate (Suc m) (Fin c) \<and> binCount_ajayjs ds = Fin (real k)"
  note r = degenerate_ajayjs [OF h [THEN conjunct1] h [THEN conjunct2] assms(2,1,3,4)]
  show "histogramEdges_ajayjs B ds (rawValues_ajayjs ds) = Inr (replicate (Suc k) (Fin c))"
    by (rule r(1))
  show "countFrequencies (replicate (Suc k) (Fin c)) (rawValues_ajayjs ds)
          = Inr (replicate (k - 1) 0 @ [length (rawValues_ajayjs ds)])"
    using degenerate_counts [OF assms(2), of c "Suc m"] h by (simp del: replicate_Suc)
  show "\<exists>d. buildHistogramDataset_ajayjs B ds color = Inr d
             \<and> (''data'' \<in> fst ` set (passthrough ds)
                \<or> get d ''data'' = degenerateBins B sep_ajayjs c k (length (rawValues_ajayjs ds)))"
    using r(2) [of color] h by (simp del: replicate_Suc)
next
  assume h: "rawValues_charts ds = replicate (Suc m) (Fin c) \<and> binCount_charts ds = Fin (real k)"
  note r = degenerate_charts [OF h [THEN conjunct1] h [THEN conjunct2] assms(2,1,3,4)]
  show "histogramEdges_charts B ds (rawValues_charts ds) = Inr (replicate (Suc k) (Fin c))"
    by (rule r(1))
  show "countFrequencies (replicate (Suc k) (Fin c)) (rawValues_charts ds)
          = Inr (replicate (k - 1) 0 @ [length (rawValues_charts ds)])"
    using degenerate_counts [OF assms(2), of c "Suc m"] h by (simp del: replicate_Suc)
  show "\<exists>d. buildHistogramDataset_charts B ds color = Inr d
             \<and> (''data'' \<in> fst ` set (passthrough ds)
                \<or> get d ''data'' = degenerateBins B sep_charts c k (length (rawValues_charts ds)))"
    using r(2) [of color] h by (simp del: replicate_Suc)
qed

theorem single_valued_histogram_fills_last_bin_witness:
  "explicitEdges sameValues = None \<and> (0::nat) < 3
   \<and> roundNum exactEngine 0 = Fin 0 \<and> roundNum exactEngine 5 = Fin 5
   \<and> rawValues_ajayjs sameValues = replicate (Suc 2) (Fin 5)
   \<and> binCount_ajayjs sameValues = Fin (real (3::nat))
   \<and> rawValues_charts sameValues = replicate (Suc 2) (Fin 5)
   \<and> binCount_charts sameValues = Fin (real (3::nat))
   \<and> histogramEdges_ajayjs exactEngine sameValues (rawValues_ajayjs sameValues)
       = Inr [Fin 5, Fin 5, Fin 5, Fin 5]
   \<and> histogramEdges_charts exactEngine sameValues (rawValues_charts sameValues)
       = Inr [Fin 5, Fin 5, Fin 5, Fin 5]
   \<and> countFrequencies [Fin 5, Fin 5, Fin 5, Fin 5] (rawValues_ajayjs sameValues) = Inr [0, 0, 3]"
proof -
  have e: "explicitEdges sameValues = None"
    by (simp add: explicitEdges_def sameValues_def get_Cons get_Nil)
  have k: "(0::nat) < 3" by simp
  have r0: "roundNum exactEngine 0 = Fin 0" and r5: "roundNum exactEngine 5 = Fin 5"
    by (simp_all add: exactEngine_def)
  have three: "replicate (Suc 2) (Fin 5) = [Fin 5, Fin 5, Fin 5]"
    by (simp add: numeral_2_eq_2)
  have four: "replicate (Suc 3) (Fin 5) = [Fin 5, Fin 5, Fin 5, Fin 5]"
    by (simp add: numeral_3_eq_3)
  have ra: "rawValues_ajayjs sameValues = replicate (Suc 2) (Fin 5)"
    unfolding three by (simp add: rawValues_ajayjs_def sameValues_def get_Cons)
  have rc: "rawValues_charts sameValues = replicate (Suc 2) (Fin 5)"
    unfolding three by (simp add: rawValues_charts_def sameValues_def get_Cons)
  have ba: "binCount_ajayjs sameValues = Fin (real (3::nat))"
    by (simp add: binCount_ajayjs_def sameValues_def get_Cons js_gt_def)
  have bc: "binCount_charts sameValues = Fin (real (3::nat))"
    by (simp add: binCount_charts_def sameValues_def get_Cons)
  note inst = single_valued_histogram_fills_last_bin [OF e k r0 r5, of 2]
  note a = inst [THEN conjunct1, rule_format, OF conjI [OF ra ba]]
  note c = inst [THEN conjunct2, rule_format, OF conjI [OF rc bc]]
  have ea: "histogramEdges_ajayjs exactEngine sameValues (rawValues_ajayjs sameValues)
       = Inr [Fin 5, Fin 5, Fin 5, Fin 5]"
    using a [THEN conjunct1] by (simp only: four)
  have ec: "histogramEdges_charts exactEngine sameValues (rawValues_charts sameValues)
       = Inr [Fin 5, Fin 5, Fin 5, Fin 5]"
    using c [THEN conjunct1] by (simp only: four)
  have len: "length (rawValues_ajayjs sameValues) = 3"
    by (simp add: ra)
  have fa: "countFrequencies [Fin 5, Fin 5, Fin 5, Fin 5] (rawValues_ajayjs sameValues) = Inr [0, 0, 3]"
    using a [THEN conjunct2, THEN conjunct1] unfolding four len
    by (simp add: numeral_2_eq_2)
  from e k r0 r5 ra ba rc bc ea ec fa show ?thesis
    by (intro conjI)
qed

section \<open>Explicit bin edges\<close>

text \<open>
  C3, in \<^verbatim>\<open>src/AJAYJS/charts/charts.js\<close>: explicit edges (an array of at least two
  numbers, none of them \<open>NaN\<close>) are sorted ascending (the sorted list is ascending and a
  rearrangement of the edges given); the observed minimum of the values the filter
  keeps is put in front when it is below the first edge, and the observed maximum is
  put behind when it is above the last edge. In \<^verbatim>\<open>src/charts/charts.js\<close> the edges are
  sorted and nothing more.
\<close>

lemma ascending_Cons:
  "ascending (a # bs) = (case bs of [] \<Rightarrow> True | b # cs \<Rightarrow> js_le a b \<and> ascending bs)"
  by (cases bs) simp_all

lemma insertEdge_head:
  "insertEdge a bs = c # cs \<Longrightarrow> c = a \<or> (\<exists>bs'. bs = c # bs')"
  by (cases bs) (auto split: if_splits)

lemma ascending_insertEdge:
  "a \<noteq> NaN \<Longrightarrow> NaN \<notin> set bs \<Longrightarrow> ascending bs \<Longrightarrow> ascending (insertEdge a bs)"
proof (induction bs)
  case Nil
  then show ?case by simp
next
  case (Cons b bs)
  show ?case
  proof (cases "js_le a b")
    case True
    with Cons.prems show ?thesis by simp
  next
    case False
    with Cons.prems have ba: "js_le b a"
      using js_le_total [of a b] by auto
    have tail: "ascending (insertEdge a bs)"
      using Cons by (auto simp: ascending_Cons split: list.splits)
    show ?thesis
    proof (cases "insertEdge a bs")
      case Nil
      with False show ?thesis by simp
    next
      case (Cons c cs)
      from insertEdge_head [OF Cons] have "js_le b c"
        using ba Cons.prems(3) by (auto simp: ascending_Cons)
      with False tail Cons show ?thesis by simp
    qed
  qed
qed

lemma set_insertEdge: "set (insertEdge a bs) = insert a (set bs)"
  by (induction bs) auto

lemma mset_insertEdge: "mset (insertEdge a bs) = add_mset a (mset bs)"
  by (induction bs) auto

lemma mset_sortEdges: "mset (sortEdges ns) = mset ns"
  by (induction ns) (simp_all add: mset_insertEdge)

lemma set_sortEdges: "set (sortEdges ns) = set ns"
  by (induction ns) (simp_all add: set_insertEdge)

lemma ascending_sortEdges: "NaN \<notin> set ns \<Longrightarrow> ascending (sortEdges ns)"
  by (induction ns) (auto simp: set_sortEdges intro!: ascending_insertEdge)

lemma edgeNumbers_Some: "edgeNumbers es = Some ns \<Longrightarrow> es = map JNum ns \<and> NaN \<notin> set ns"
proof (induction es arbitrary: ns rule: edgeNumbers.induct)
  case (2 n vs)
  then show ?case by (auto split: if_splits option.splits)
qed simp_all

lemma explicit_edges_sorted_and_extended_ajayjs:
  assumes "explicitEdges ds = Some es" and "edgeNumbers es = Some ns"
  shows "histogramEdges_ajayjs B ds raw
           = Inr ((if js_lt (math_min raw) (hd (sortEdges ns)) then [math_min raw] else [])
                  @ sortEdges ns
                  @ (if js_gt (math_max raw) (last (sortEdges ns)) then [math_max raw] else []))"
    and "ascending (sortEdges ns)" and "mset (sortEdges ns) = mset ns"
proof -
  from assms(1) have "2 \<le> length es"
    by (auto simp: explicitEdges_def split: jsval.splits if_splits)
  with edgeNumbers_Some [OF assms(2)] have "ns \<noteq> []" by auto
  then have ne: "sortEdges ns \<noteq> []"
    using set_sortEdges [of ns] by (cases "sortEdges ns") auto
  then show "histogramEdges_ajayjs B ds raw
           = Inr ((if js_lt (math_min raw) (hd (sortEdges ns)) then [math_min raw] else [])
                  @ sortEdges ns
                  @ (if js_gt (math_max raw) (last (sortEdges ns)) then [math_max raw] else []))"
    by (simp add: histogramEdges_ajayjs_def assms extendEdges_def Let_def)
  show "ascending (sortEdges ns)"
    using edgeNumbers_Some [OF assms(2)] by (simp add: ascending_sortEdges)
  show "mset (sortEdges ns) = mset ns"
    by (rule mset_sortEdges)
qed

lemma explicit_edges_only_sorted_charts:
  assumes "explicitEdges ds = Some es" and "edgeNumbers es = Some ns"
  shows "histogramEdges_charts B ds raw = Inr (sortEdges ns)"
  by (simp add: histogramEdges_charts_def assms Let_def)

text \<open>
  C3. In \<^verbatim>\<open>src/charts/charts.js\<close> the explicit edges \<open>[10, 5]\<close> with the values
  \<open>[1, 6, 12]\<close> give the edges \<open>[5, 10]\<close>: the minimum 1 is not put in front, the
  maximum 12 is not put behind, and only the value 6 is counted. On the same input
  \<^verbatim>\<open>src/AJAYJS/charts/charts.js\<close> gives the edges \<open>[1, 5, 10, 12]\<close> and counts every
  value.
\<close>

theorem explicit_edges_not_extended_charts:
  "histogramEdges_charts exactEngine outsideEdges (rawValues_charts outsideEdges)
     = Inr [Fin 5, Fin 10]
   \<and> countFrequencies [Fin 5, Fin 10] (rawValues_charts outsideEdges) = Inr [1]
   \<and> histogramEdges_ajayjs exactEngine outsideEdges (rawValues_ajayjs outsideEdges)
     = Inr [Fin 1, Fin 5, Fin 10, Fin 12]
   \<and> countFrequencies [Fin 1, Fin 5, Fin 10, Fin 12] (rawValues_ajayjs outsideEdges)
     = Inr [1, 1, 1]"
proof -
  have ex: "explicitEdges outsideEdges = Some [JNum (Fin 10), JNum (Fin 5)]"
    by (simp add: explicitEdges_def outsideEdges_def get_Cons)
  have en: "edgeNumbers [JNum (Fin 10), JNum (Fin 5)] = Some [Fin 10, Fin 5]"
    by simp
  have rc: "rawValues_charts outsideEdges = [Fin 1, Fin 6, Fin 12]"
    by (simp add: rawValues_charts_def outsideEdges_def get_Cons)
  have ra: "rawValues_ajayjs outsideEdges = [Fin 1, Fin 6, Fin 12]"
    by (simp add: rawValues_ajayjs_def outsideEdges_def get_Cons)
  have mn: "math_min [Fin 1, Fin 6, Fin 12] = Fin 1" and mx: "math_max [Fin 1, Fin 6, Fin 12] = Fin 12"
    by (simp_all add: math_min_def math_max_def js_min2_def js_max2_def)
  have a: "histogramEdges_charts exactEngine outsideEdges (rawValues_charts outsideEdges)
     = Inr [Fin 5, Fin 10]"
    by (simp add: explicit_edges_only_sorted_charts [OF ex en] js_le_def js_eq_def)
  have b: "countFrequencies [Fin 5, Fin 10] (rawValues_charts outsideEdges) = Inr [1]"
    by (simp add: rc countFrequencies_def binLoop.simps js_ge_def js_le_def js_eq_def)
  have c: "histogramEdges_ajayjs exactEngine outsideEdges (rawValues_ajayjs outsideEdges)
     = Inr [Fin 1, Fin 5, Fin 10, Fin 12]"
    by (simp add: explicit_edges_sorted_and_extended_ajayjs(1) [OF ex en] ra mn mx js_gt_def
        js_le_def js_eq_def)
  have d: "countFrequencies [Fin 1, Fin 5, Fin 10, Fin 12] (rawValues_ajayjs outsideEdges)
     = Inr [1, 1, 1]"
    by (simp add: ra countFrequencies_def binLoop.simps js_ge_def js_le_def js_eq_def
        numeral_3_eq_3 numeral_2_eq_2)
  from a b c d show ?thesis by (intro conjI)
qed

end
